theory Spec2Isabelle
  imports Complex_Main "HOL-Library.Sublist" "HOL-Library.Log_Nat"
begin

section \<open>JavaScript values used by the record store\<close>

subsection \<open>Numbers\<close>

text \<open>
  A JavaScript number is a binary64 value: not-a-number, an infinity, or a finite value,
  and every finite binary64 value is a rational. The two zeros are identified: no
  operation of the store tells them apart (every divisor below is a positive count or
  the literal \<open>100\<close>).
\<close>

datatype jsnum = NaN | NegInf | Fin rat | PosInf

text \<open>
  \<open>x >= c\<close> and \<open>x < c\<close>, where \<open>c\<close> is a finite number. A comparison with \<open>NaN\<close> is
  false. The store compares with the literals \<open>3.75\<close> and \<open>2.00\<close> and with \<open>0\<close> and
  \<open>12\<close>, all of which are binary64 values, so the comparison of the values is exact.
\<close>

fun js_ge :: "jsnum \<Rightarrow> rat \<Rightarrow> bool" where
  "js_ge NaN c = False"
| "js_ge NegInf c = False"
| "js_ge (Fin r) c = (c \<le> r)"
| "js_ge PosInf c = True"

fun js_lt :: "jsnum \<Rightarrow> rat \<Rightarrow> bool" where
  "js_lt NaN c = False"
| "js_lt NegInf c = True"
| "js_lt (Fin r) c = (r < c)"
| "js_lt PosInf c = False"

fun is_finite :: "jsnum \<Rightarrow> bool" where
  "is_finite (Fin r) = True"
| "is_finite x = False"

text \<open>
  Arithmetic. Each operation on finite operands is the exact result, rounded to a
  binary64 value by the platform; the rounding \<open>rnd\<close> (round to nearest, ties to even,
  overflow to an infinity) is a parameter of the model, as is \<open>parseFloat\<close> below.
  \<open>Math.round\<close> is exact: the nearest integer, a tie going up.
\<close>

fun js_add :: "(rat \<Rightarrow> jsnum) \<Rightarrow> jsnum \<Rightarrow> jsnum \<Rightarrow> jsnum" where
  "js_add rnd (Fin a) (Fin b) = rnd (a + b)"
| "js_add rnd NaN y = NaN"
| "js_add rnd x NaN = NaN"
| "js_add rnd PosInf NegInf = NaN"
| "js_add rnd NegInf PosInf = NaN"
| "js_add rnd PosInf y = PosInf"
| "js_add rnd NegInf y = NegInf"
| "js_add rnd x PosInf = PosInf"
| "js_add rnd x NegInf = NegInf"

fun js_mul :: "(rat \<Rightarrow> jsnum) \<Rightarrow> jsnum \<Rightarrow> jsnum \<Rightarrow> jsnum" where
  "js_mul rnd (Fin a) (Fin b) = rnd (a * b)"
| "js_mul rnd NaN y = NaN"
| "js_mul rnd x NaN = NaN"
| "js_mul rnd PosInf (Fin b) = (if b = 0 then NaN else if 0 < b then PosInf else NegInf)"
| "js_mul rnd NegInf (Fin b) = (if b = 0 then NaN else if 0 < b then NegInf else PosInf)"
| "js_mul rnd (Fin a) PosInf = (if a = 0 then NaN else if 0 < a then PosInf else NegInf)"
| "js_mul rnd (Fin a) NegInf = (if a = 0 then NaN else if 0 < a then NegInf else PosInf)"
| "js_mul rnd PosInf PosInf = PosInf"
| "js_mul rnd PosInf NegInf = NegInf"
| "js_mul rnd NegInf PosInf = NegInf"
| "js_mul rnd NegInf NegInf = PosInf"

text \<open>Division; a zero divisor is the positive zero (a count of students).\<close>

fun js_div :: "(rat \<Rightarrow> jsnum) \<Rightarrow> jsnum \<Rightarrow> jsnum \<Rightarrow> jsnum" where
  "js_div rnd (Fin a) (Fin b) =
     (if b = 0 then (if a = 0 then NaN else if 0 < a then PosInf else NegInf)
      else rnd (a / b))"
| "js_div rnd NaN y = NaN"
| "js_div rnd x NaN = NaN"
| "js_div rnd (Fin a) PosInf = Fin 0"
| "js_div rnd (Fin a) NegInf = Fin 0"
| "js_div rnd PosInf (Fin b) = (if 0 \<le> b then PosInf else NegInf)"
| "js_div rnd NegInf (Fin b) = (if 0 \<le> b then NegInf else PosInf)"
| "js_div rnd x y = NaN"

fun math_round :: "jsnum \<Rightarrow> jsnum" where
  "math_round (Fin a) = Fin (of_int \<lfloor>a + 1 / 2\<rfloor>)"
| "math_round x = x"

text \<open>
  The rounding of binary64 arithmetic (IEEE 754, round to nearest, ties to even), which
  is what \<open>rnd\<close> is on the platform. For \<open>x > 0\<close>, \<open>ilog2 x\<close> is the exponent \<open>e\<close> with
  \<open>2 powi e \<le> x < 2 powi (e + 1)\<close>. A value is rounded to the nearest multiple of
  \<open>2 powi (e - 52)\<close>, where \<open>e\<close> is held at \<open>-1022\<close> below the normal range, a tie going
  to the even multiple, and to an infinity when that multiple reaches \<open>2 ^ 1024\<close>.
\<close>

definition ilog2 :: "rat \<Rightarrow> int" where
  "ilog2 x =
     (let (p, q) = quotient_of x; d = bitlen p - bitlen q
      in if 2 powi d \<le> x then d else d - 1)"

definition round_half_even :: "rat \<Rightarrow> int" where
  "round_half_even z =
     (let f = \<lfloor>z\<rfloor>; r = z - of_int f
      in if r < 1 / 2 then f else if 1 / 2 < r then f + 1 else if even f then f else f + 1)"

definition round_binary64 :: "rat \<Rightarrow> jsnum" where
  "round_binary64 x =
     (if x = 0 then Fin 0
      else
        let a = \<bar>x\<bar>;
            e = max (ilog2 a) (- 1022);
            ulp = 2 powi (e - 52);
            y = of_int (round_half_even (a / ulp)) * ulp
        in if 2 ^ 1024 \<le> y then (if 0 < x then PosInf else NegInf)
           else Fin (if 0 < x then y else - y))"

subsection \<open>\<open>Map\<close>\<close>

text \<open>
  A JavaScript \<open>Map\<close> keeps its entries in the order in which their keys were first
  inserted. \<open>set\<close> on a key that is present replaces the value where the entry stands;
  on an absent key it adds the entry at the end. \<open>delete\<close> tells whether the key was
  present. \<open>values()\<close> lists the values in entry order.
\<close>

type_synonym ('k, 'v) js_map = "('k \<times> 'v) list"

fun map_get :: "('k, 'v) js_map \<Rightarrow> 'k \<Rightarrow> 'v option" where
  "map_get [] k = None"
| "map_get ((k', v) # m) k = (if k' = k then Some v else map_get m k)"

fun map_set :: "'k \<Rightarrow> 'v \<Rightarrow> ('k, 'v) js_map \<Rightarrow> ('k, 'v) js_map" where
  "map_set k v [] = [(k, v)]"
| "map_set k v ((k', v') # m) = (if k' = k then (k, v) # m else (k', v') # map_set k v m)"

definition map_has :: "('k, 'v) js_map \<Rightarrow> 'k \<Rightarrow> bool" where
  "map_has m k = (map_get m k \<noteq> None)"

definition map_delete :: "'k \<Rightarrow> ('k, 'v) js_map \<Rightarrow> bool \<times> ('k, 'v) js_map" where
  "map_delete k m = (map_has m k, filter (\<lambda>e. fst e \<noteq> k) m)"

definition map_values :: "('k, 'v) js_map \<Rightarrow> 'v list" where
  "map_values m = map snd m"

definition map_keys :: "('k, 'v) js_map \<Rightarrow> 'k list" where
  "map_keys m = map fst m"

section \<open>The data model\<close>

text \<open>
  Modelled from the spec: the types \<open>Student\<close>, \<open>InsertStudent\<close>, \<open>Subject\<close>,
  \<open>InsertSubject\<close>, \<open>DashboardMetrics\<close> and \<open>PerformanceData\<close> are declared in
  \<open>@shared/schema\<close>, which is not among the sources. The fields are those of the
  spec's data model and those \<open>storage.ts\<close> reads and writes: \<open>credits\<close> is a
  non-negative integer, \<open>cgpa\<close> is text, \<open>grade\<close> and \<open>studentId\<close> of a subject may
  be absent (\<open>null\<close>), and a student record carries a \<open>subjects\<close> field, which every
  read replaces by the joined list. The field \<open>id\<close> is written \<open>sid\<close> for a student
  and \<open>subject_id\<close> for a subject, and a subject's \<open>name\<close> is \<open>subject_name\<close>.
\<close>

record subject =
  subject_id :: string
  code :: string
  subject_name :: string
  grade :: "string option"
  status :: string
  studentId :: "string option"

record insertSubject =
  new_code :: string
  new_subject_name :: string
  new_grade :: "string option"
  new_status :: string
  new_studentId :: "string option"

record student =
  sid :: string
  name :: string
  email :: string
  intake :: string
  programme :: string
  cgpa :: string
  credits :: nat
  subjects :: "subject list"
  createdAt :: string

text \<open>
  \<open>InsertStudent\<close>: the caller's input to \<open>createStudent\<close>, with \<open>credits\<close> and
  \<open>subjects\<close> optional and no \<open>createdAt\<close>.
\<close>

record insertStudent =
  new_id :: string
  new_name :: string
  new_email :: string
  new_intake :: string
  new_programme :: string
  new_cgpa :: string
  new_credits :: "nat option"
  new_subjects :: "subject list option"

text \<open>
  \<open>Partial<InsertStudent>\<close>: every field of \<open>InsertStudent\<close> may be present
  (\<open>Some\<close>) or absent (\<open>None\<close>).
\<close>

record partialInsertStudent =
  upd_id :: "string option"
  upd_name :: "string option"
  upd_email :: "string option"
  upd_intake :: "string option"
  upd_programme :: "string option"
  upd_cgpa :: "string option"
  upd_credits :: "nat option"
  upd_subjects :: "subject list option"

record dashboardMetrics =
  totalStudents :: nat
  deansListCount :: nat
  probationCount :: nat
  averageCGPA :: jsnum

record performanceData =
  deansListStudents :: "student list"
  probationStudents :: "student list"
  goodStandingStudents :: "student list"

text \<open>The state of \<open>MemStorage\<close>: its two private maps.\<close>

record memStorage =
  students :: "(string, student) js_map"
  subjects_map :: "(string, subject) js_map"

definition emptyStorage :: memStorage where
  "emptyStorage = \<lparr>students = [], subjects_map = []\<rparr>"

section \<open>The record store\<close>

text \<open>
  Every method of \<open>MemStorage\<close> runs to completion on the state it is called on; a
  method that changes the state returns its result together with the new state. The
  time \<open>new Date().toISOString()\<close> and the key \<open>randomUUID()\<close> are arguments.
\<close>

definition getSubjectsByStudentId :: "string \<Rightarrow> memStorage \<Rightarrow> subject list" where
  "getSubjectsByStudentId i st =
     filter (\<lambda>subject. studentId subject = Some i) (map_values (subjects_map st))"

definition getStudent :: "string \<Rightarrow> memStorage \<Rightarrow> student option" where
  "getStudent i st =
     (case map_get (students st) i of
        None \<Rightarrow> None
      | Some student \<Rightarrow> Some (student\<lparr>subjects := getSubjectsByStudentId i st\<rparr>))"

definition getStudentByEmail :: "string \<Rightarrow> memStorage \<Rightarrow> student option" where
  "getStudentByEmail e st =
     (case find (\<lambda>s. email s = e) (map_values (students st)) of
        None \<Rightarrow> None
      | Some student \<Rightarrow> Some (student\<lparr>subjects := getSubjectsByStudentId (sid student) st\<rparr>))"

definition newStudent :: "insertStudent \<Rightarrow> string \<Rightarrow> student" where
  \<comment> \<open>the object literal of \<open>createStudent\<close>: \<open>credits || 0\<close>, \<open>subjects || []\<close>\<close>
  "newStudent insertStudent now =
     \<lparr>sid = new_id insertStudent,
      name = new_name insertStudent,
      email = new_email insertStudent,
      intake = new_intake insertStudent,
      programme = new_programme insertStudent,
      cgpa = new_cgpa insertStudent,
      credits = (case new_credits insertStudent of None \<Rightarrow> 0 | Some c \<Rightarrow> c),
      subjects = (case new_subjects insertStudent of None \<Rightarrow> [] | Some xs \<Rightarrow> xs),
      createdAt = now\<rparr>"

definition createStudent :: "insertStudent \<Rightarrow> string \<Rightarrow> memStorage \<Rightarrow> student \<times> memStorage" where
  "createStudent insertStudent now st =
     (let student = newStudent insertStudent now
      in (student\<lparr>subjects := []\<rparr>,
          st\<lparr>students := map_set (sid student) student (students st)\<rparr>))"

definition getAllStudents :: "memStorage \<Rightarrow> student list" where
  "getAllStudents st =
     map (\<lambda>student. student\<lparr>subjects := getSubjectsByStudentId (sid student) st\<rparr>)
       (map_values (students st))"

definition getStudentsBySemester :: "string \<Rightarrow> memStorage \<Rightarrow> student list" where
  "getStudentsBySemester semester st =
     filter (\<lambda>student. intake student = semester) (getAllStudents st)"

definition spread :: "student \<Rightarrow> partialInsertStudent \<Rightarrow> student" where
  \<comment> \<open>\<open>{ ...existingStudent, ...updateData }\<close>: a field of \<open>updateData\<close> that is present wins\<close>
  "spread existingStudent updateData =
     \<lparr>sid = (case upd_id updateData of None \<Rightarrow> sid existingStudent | Some v \<Rightarrow> v),
      name = (case upd_name updateData of None \<Rightarrow> name existingStudent | Some v \<Rightarrow> v),
      email = (case upd_email updateData of None \<Rightarrow> email existingStudent | Some v \<Rightarrow> v),
      intake = (case upd_intake updateData of None \<Rightarrow> intake existingStudent | Some v \<Rightarrow> v),
      programme =
        (case upd_programme updateData of None \<Rightarrow> programme existingStudent | Some v \<Rightarrow> v),
      cgpa = (case upd_cgpa updateData of None \<Rightarrow> cgpa existingStudent | Some v \<Rightarrow> v),
      credits = (case upd_credits updateData of None \<Rightarrow> credits existingStudent | Some v \<Rightarrow> v),
      subjects =
        (case upd_subjects updateData of None \<Rightarrow> subjects existingStudent | Some v \<Rightarrow> v),
      createdAt = createdAt existingStudent\<rparr>"

definition updateStudent ::
  "string \<Rightarrow> partialInsertStudent \<Rightarrow> memStorage \<Rightarrow> student option \<times> memStorage" where
  "updateStudent i updateData st =
     (case map_get (students st) i of
        None \<Rightarrow> (None, st)
      | Some existingStudent \<Rightarrow>
          (let updatedStudent = spread existingStudent updateData;
               st' = st\<lparr>students := map_set i updatedStudent (students st)\<rparr>
           in (Some (updatedStudent\<lparr>subjects := getSubjectsByStudentId i st'\<rparr>), st')))"

definition deleteStudent :: "string \<Rightarrow> memStorage \<Rightarrow> bool \<times> memStorage" where
  "deleteStudent i st =
     (let (existed, m) = map_delete i (students st) in (existed, st\<lparr>students := m\<rparr>))"

definition or_null :: "string option \<Rightarrow> string option" where
  \<comment> \<open>\<open>x || null\<close> on an optional string: the empty string is falsy\<close>
  "or_null x = (case x of None \<Rightarrow> None | Some s \<Rightarrow> if s = [] then None else Some s)"

definition createSubject :: "insertSubject \<Rightarrow> string \<Rightarrow> memStorage \<Rightarrow> subject \<times> memStorage" where
  "createSubject subject uuid st =
     (let newSubject =
        \<lparr>subject_id = uuid,
         code = new_code subject,
         subject_name = new_subject_name subject,
         grade = or_null (new_grade subject),
         status = new_status subject,
         studentId = or_null (new_studentId subject)\<rparr>
      in (newSubject, st\<lparr>subjects_map := map_set uuid newSubject (subjects_map st)\<rparr>))"

section \<open>The analytics engine\<close>

text \<open>
  The candidate students of both dashboard methods:
  \<open>if (semester && semester !== 'all')\<close> the students of that intake, otherwise all
  students. An absent key (\<open>undefined\<close>) and the empty string are falsy.
\<close>

definition candidateStudents :: "string option \<Rightarrow> memStorage \<Rightarrow> student list" where
  "candidateStudents semester st =
     (case semester of
        None \<Rightarrow> getAllStudents st
      | Some k \<Rightarrow>
          if k \<noteq> [] \<and> k \<noteq> ''all'' then getStudentsBySemester k st else getAllStudents st)"

definition getDashboardMetrics ::
  "(string \<Rightarrow> jsnum) \<Rightarrow> (rat \<Rightarrow> jsnum) \<Rightarrow> string option \<Rightarrow> memStorage \<Rightarrow> dashboardMetrics" where
  "getDashboardMetrics parseFloat rnd semester st =
     (let students = candidateStudents semester st;
          totalStudents = length students;
          deansListCount =
            length (filter (\<lambda>s. js_ge (parseFloat (cgpa s)) (15 / 4) \<and> 12 \<le> credits s) students);
          probationCount = length (filter (\<lambda>s. js_lt (parseFloat (cgpa s)) 2) students);
          averageCGPA =
            (if 0 < totalStudents
             then js_div rnd
                    (foldl (\<lambda>sum s. js_add rnd sum (parseFloat (cgpa s))) (Fin 0) students)
                    (Fin (of_nat totalStudents))
             else Fin 0)
      in \<lparr>totalStudents = totalStudents,
          deansListCount = deansListCount,
          probationCount = probationCount,
          averageCGPA = js_div rnd (math_round (js_mul rnd averageCGPA (Fin 100))) (Fin 100)\<rparr>)"

definition getDashboardPerformance ::
  "(string \<Rightarrow> jsnum) \<Rightarrow> string option \<Rightarrow> memStorage \<Rightarrow> performanceData" where
  "getDashboardPerformance parseFloat semester st =
     (let students = candidateStudents semester st
      in \<lparr>deansListStudents =
            filter (\<lambda>s. js_ge (parseFloat (cgpa s)) (15 / 4) \<and> 12 \<le> credits s) students,
          probationStudents =
            filter (\<lambda>s. js_lt (parseFloat (cgpa s)) 2 \<and> 0 < credits s) students,
          goodStandingStudents =
            filter (\<lambda>s. let c = parseFloat (cgpa s)
                         in js_ge c 2 \<and> (js_lt c (15 / 4) \<or> credits s < 12)) students\<rparr>)"

section \<open>Notions of the specification\<close>

text \<open>
  The number of the three performance lists that hold a given student.
\<close>

definition segmentsContaining :: "student \<Rightarrow> performanceData \<Rightarrow> nat" where
  "segmentsContaining s p =
     (if s \<in> set (deansListStudents p) then 1 else 0) +
     (if s \<in> set (probationStudents p) then 1 else 0) +
     (if s \<in> set (goodStandingStudents p) then 1 else 0)"

text \<open>
  The arithmetic mean of a list of values, and a value rounded to two decimal places:
  the nearest hundredth, a tie going up.
\<close>

definition arithmetic_mean :: "rat list \<Rightarrow> rat" where
  "arithmetic_mean vs = sum_list vs / of_nat (length vs)"

definition round_2dp :: "rat \<Rightarrow> rat" where
  "round_2dp x = of_int \<lfloor>x * 100 + 1 / 2\<rfloor> / 100"

section \<open>The scenarios of the specification\<close>

text \<open>
  The binary64 values of the scenarios' \<open>cgpa\<close> texts: \<open>3.80\<close> and \<open>2.80\<close> are not
  binary64 values and parse to their nearest neighbours.
\<close>

definition scenario_parseFloat :: "string \<Rightarrow> jsnum" where
  "scenario_parseFloat text =
     (if text = ''3.80'' then Fin (4278419646001971 / 1125899906842624)
      else if text = ''2.80'' then Fin (3152519739159347 / 1125899906842624)
      else if text = ''1.50'' then Fin (3 / 2)
      else NaN)"

definition scenario_input :: "string \<Rightarrow> string \<Rightarrow> string \<Rightarrow> nat \<Rightarrow> insertStudent" where
  "scenario_input i k c n =
     \<lparr>new_id = i, new_name = ''Student '' @ i, new_email = i @ ''@uow.edu.my'',
      new_intake = k, new_programme = ''Bachelor of Information Systems (Hons)'',
      new_cgpa = c, new_credits = Some n, new_subjects = None\<rparr>"

definition scenarioA :: memStorage where
  "scenarioA =
     snd (createStudent (scenario_input ''S2'' ''Jun-25'' ''2.80'' 15) ''2025-06-01T00:00:01.000Z''
       (snd (createStudent (scenario_input ''S1'' ''Jun-25'' ''3.80'' 15)
          ''2025-06-01T00:00:00.000Z'' emptyStorage)))"

definition scenarioB :: memStorage where
  "scenarioB =
     snd (createStudent (scenario_input ''S3'' [] ''1.50'' 0) ''2025-06-01T00:00:02.000Z''
       scenarioA)"

definition scenario_s3 :: student where
  "scenario_s3 =
     fst (createStudent (scenario_input ''S3'' [] ''1.50'' 0) ''2025-06-01T00:00:02.000Z''
       scenarioA)"

text \<open>A subject of student \<open>S1\<close>.\<close>

definition scenario_subject :: insertSubject where
  "scenario_subject =
     \<lparr>new_code = ''CSIT111'', new_subject_name = ''Programming Fundamentals'',
      new_grade = Some ''A'', new_status = ''pass'', new_studentId = Some ''S1''\<rparr>"

text \<open>Scenario A with that subject stored, and the subject stored with no student.\<close>

definition scenarioA_with_subject :: memStorage where
  "scenarioA_with_subject = snd (createSubject scenario_subject ''uuid-1'' scenarioA)"

definition orphan_subject :: memStorage where
  "orphan_subject = snd (createSubject scenario_subject ''uuid-1'' emptyStorage)"

text \<open>
  Two students with \<open>cgpa\<close> \<open>2.00\<close> and \<open>2.27\<close>, and the binary64 values these texts
  parse to.
\<close>

definition rounding_parseFloat :: "string \<Rightarrow> jsnum" where
  "rounding_parseFloat text =
     (if text = ''2.00'' then round_binary64 2
      else if text = ''2.27'' then round_binary64 (227 / 100)
      else NaN)"

definition rounding_scenario :: memStorage where
  "rounding_scenario =
     snd (createStudent (scenario_input ''S2'' ''Jun-25'' ''2.27'' 15) ''2025-06-01T00:00:01.000Z''
       (snd (createStudent (scenario_input ''S1'' ''Jun-25'' ''2.00'' 15)
          ''2025-06-01T00:00:00.000Z'' emptyStorage)))"

text \<open>The update that carries no field.\<close>

definition no_update :: partialInsertStudent where
  "no_update =
     \<lparr>upd_id = None, upd_name = None, upd_email = None, upd_intake = None,
      upd_programme = None, upd_cgpa = None, upd_credits = None, upd_subjects = None\<rparr>"

section \<open>Comparisons and maps\<close>

lemma js_ge_lt_excl: "js_ge x c \<Longrightarrow> \<not> js_lt x c"
  by (cases x) auto

lemma js_lt_trans: "js_lt x c \<Longrightarrow> c \<le> d \<Longrightarrow> js_lt x d"
  by (cases x) auto

lemma probation_split:
  "length (filter (\<lambda>s. js_lt (pf (cgpa s)) 2) xs) =
   length (filter (\<lambda>s. js_lt (pf (cgpa s)) 2 \<and> 0 < credits s) xs) +
   length (filter (\<lambda>s. js_lt (pf (cgpa s)) 2 \<and> credits s = 0) xs)"
  by (induction xs) auto

lemmas scenario_defs =
  scenarioB_def scenarioA_def scenario_s3_def scenario_input_def scenario_parseFloat_def
  createStudent_def newStudent_def emptyStorage_def getAllStudents_def map_values_def
  getSubjectsByStudentId_def candidateStudents_def getStudentsBySemester_def Let_def

lemma scenarioB_candidates:
  "candidateStudents None scenarioB =
     [\<lparr>sid = ''S1'', name = ''Student S1'', email = ''S1@uow.edu.my'', intake = ''Jun-25'',
       programme = ''Bachelor of Information Systems (Hons)'', cgpa = ''3.80'', credits = 15,
       subjects = [], createdAt = ''2025-06-01T00:00:00.000Z''\<rparr>,
      \<lparr>sid = ''S2'', name = ''Student S2'', email = ''S2@uow.edu.my'', intake = ''Jun-25'',
       programme = ''Bachelor of Information Systems (Hons)'', cgpa = ''2.80'', credits = 15,
       subjects = [], createdAt = ''2025-06-01T00:00:01.000Z''\<rparr>,
      \<lparr>sid = ''S3'', name = ''Student S3'', email = ''S3@uow.edu.my'', intake = [],
       programme = ''Bachelor of Information Systems (Hons)'', cgpa = ''1.50'', credits = 0,
       subjects = [], createdAt = ''2025-06-01T00:00:02.000Z''\<rparr>]"
  by (simp add: scenario_defs)

lemma scenario_s3_eq:
  "scenario_s3 =
      \<lparr>sid = ''S3'', name = ''Student S3'', email = ''S3@uow.edu.my'', intake = [],
       programme = ''Bachelor of Information Systems (Hons)'', cgpa = ''1.50'', credits = 0,
       subjects = [], createdAt = ''2025-06-01T00:00:02.000Z''\<rparr>"
  by (simp add: scenario_defs)

section \<open>The probation metric and the probation segment\<close>

text \<open>
  C1. A candidate whose \<open>cgpa\<close> parses to a number below \<open>2.00\<close> and whose \<open>credits\<close>
  are \<open>0\<close> is among the students that \<open>getDashboardMetrics\<close> counts in
  \<open>probationCount\<close> (the count is that of all candidates below \<open>2.00\<close>, so it exceeds
  the length of the probation list by the number of such zero-credit candidates), and is
  in none of the three lists of \<open>getDashboardPerformance\<close>. In Scenario B the metrics
  report \<open>probationCount = 1\<close>, while the three lists hold 2 of the 3 students and
  \<open>S3\<close> is in none.
\<close>

theorem probation_metric_counts_zero_credit_student:
  assumes "s \<in> set (candidateStudents semester st)"
    and "js_lt (parseFloat (cgpa s)) 2"
    and "credits s = 0"
  shows "probationCount (getDashboardMetrics parseFloat rnd semester st) =
           length (filter (\<lambda>x. js_lt (parseFloat (cgpa x)) 2) (candidateStudents semester st))
         \<and> s \<in> set (filter (\<lambda>x. js_lt (parseFloat (cgpa x)) 2) (candidateStudents semester st))
         \<and> probationCount (getDashboardMetrics parseFloat rnd semester st) =
             length (probationStudents (getDashboardPerformance parseFloat semester st)) +
             length (filter (\<lambda>x. js_lt (parseFloat (cgpa x)) 2 \<and> credits x = 0)
                       (candidateStudents semester st))
         \<and> length (probationStudents (getDashboardPerformance parseFloat semester st)) <
             probationCount (getDashboardMetrics parseFloat rnd semester st)
         \<and> s \<notin> set (deansListStudents (getDashboardPerformance parseFloat semester st))
         \<and> s \<notin> set (probationStudents (getDashboardPerformance parseFloat semester st))
         \<and> s \<notin> set (goodStandingStudents (getDashboardPerformance parseFloat semester st))
         \<and> probationCount (getDashboardMetrics scenario_parseFloat rnd None scenarioB) = 1
         \<and> length (candidateStudents None scenarioB) = 3
         \<and> length (deansListStudents (getDashboardPerformance scenario_parseFloat None scenarioB)) +
           length (probationStudents (getDashboardPerformance scenario_parseFloat None scenarioB)) +
           length (goodStandingStudents (getDashboardPerformance scenario_parseFloat None scenarioB))
           = 2
         \<and> segmentsContaining scenario_s3
             (getDashboardPerformance scenario_parseFloat None scenarioB) = 0"
proof -
  let ?c = "candidateStudents semester st"
  have zero: "s \<in> set (filter (\<lambda>x. js_lt (parseFloat (cgpa x)) 2 \<and> credits x = 0) ?c)"
    using assms by simp
  then have pos: "0 < length (filter (\<lambda>x. js_lt (parseFloat (cgpa x)) 2 \<and> credits x = 0) ?c)"
    by (metis length_pos_if_in_set)
  have count: "probationCount (getDashboardMetrics parseFloat rnd semester st) =
      length (filter (\<lambda>x. js_lt (parseFloat (cgpa x)) 2) ?c)"
    by (simp add: getDashboardMetrics_def Let_def)
  have seg: "probationStudents (getDashboardPerformance parseFloat semester st) =
      filter (\<lambda>x. js_lt (parseFloat (cgpa x)) 2 \<and> 0 < credits x) ?c"
    by (simp add: getDashboardPerformance_def Let_def)
  have notge: "\<not> js_ge (parseFloat (cgpa s)) c" if "2 \<le> c" for c
    using assms(2) that js_lt_trans js_ge_lt_excl by blast
  have d: "s \<notin> set (deansListStudents (getDashboardPerformance parseFloat semester st))"
    using notge [of "15 / 4"] by (simp add: getDashboardPerformance_def Let_def)
  have p: "s \<notin> set (probationStudents (getDashboardPerformance parseFloat semester st))"
    using assms(3) by (simp add: seg)
  have g: "s \<notin> set (goodStandingStudents (getDashboardPerformance parseFloat semester st))"
    using notge [of 2] by (simp add: getDashboardPerformance_def Let_def)
  have b1: "probationCount (getDashboardMetrics scenario_parseFloat rnd None scenarioB) = 1"
    by (simp add: getDashboardMetrics_def Let_def scenarioB_candidates scenario_parseFloat_def)
  have b2: "length (candidateStudents None scenarioB) = 3"
    by (simp add: scenarioB_candidates)
  have b3: "length (deansListStudents (getDashboardPerformance scenario_parseFloat None scenarioB)) +
           length (probationStudents (getDashboardPerformance scenario_parseFloat None scenarioB)) +
           length (goodStandingStudents (getDashboardPerformance scenario_parseFloat None scenarioB))
           = 2"
    by (simp add: getDashboardPerformance_def Let_def scenarioB_candidates scenario_parseFloat_def)
  have b4: "segmentsContaining scenario_s3
             (getDashboardPerformance scenario_parseFloat None scenarioB) = 0"
    by (simp add: segmentsContaining_def getDashboardPerformance_def Let_def
        scenarioB_candidates scenario_parseFloat_def scenario_s3_eq)
  show ?thesis
    using assms(1,2) pos d p g b1 b2 b3 b4 probation_split [of parseFloat ?c]
    by (simp add: count seg)
qed

theorem probation_metric_counts_zero_credit_student_witness:
  "scenario_s3 \<in> set (candidateStudents (Some ''all'') scenarioB)
   \<and> js_lt (scenario_parseFloat (cgpa scenario_s3)) 2
   \<and> credits scenario_s3 = 0
   \<and> probationCount (getDashboardMetrics scenario_parseFloat Fin (Some ''all'') scenarioB) =
       length (probationStudents (getDashboardPerformance scenario_parseFloat (Some ''all'') scenarioB)) +
       length (filter (\<lambda>x. js_lt (scenario_parseFloat (cgpa x)) 2 \<and> credits x = 0)
                       (candidateStudents (Some ''all'') scenarioB))
   \<and> scenario_s3 \<notin> set (deansListStudents (getDashboardPerformance scenario_parseFloat (Some ''all'') scenarioB))
   \<and> scenario_s3 \<notin> set (probationStudents (getDashboardPerformance scenario_parseFloat (Some ''all'') scenarioB))
   \<and> scenario_s3 \<notin> set (goodStandingStudents (getDashboardPerformance scenario_parseFloat (Some ''all'') scenarioB))"
proof -
  have c: "candidateStudents (Some ''all'') scenarioB = candidateStudents None scenarioB"
    by (simp add: candidateStudents_def)
  have h1: "scenario_s3 \<in> set (candidateStudents (Some ''all'') scenarioB)"
    by (simp add: c scenarioB_candidates scenario_s3_eq)
  have h2: "js_lt (scenario_parseFloat (cgpa scenario_s3)) 2"
    by (simp add: scenario_s3_eq scenario_parseFloat_def)
  have h3: "credits scenario_s3 = 0"
    by (simp add: scenario_s3_eq)
  show ?thesis
    using probation_metric_counts_zero_credit_student
      [of scenario_s3 "Some ''all''" scenarioB scenario_parseFloat Fin] h1 h2 h3
    by simp
qed

section \<open>The three performance lists\<close>

lemma scenario_parse_values:
  "scenario_parseFloat ''3.80'' = Fin (4278419646001971 / 1125899906842624)"
  "scenario_parseFloat ''2.80'' = Fin (3152519739159347 / 1125899906842624)"
  "scenario_parseFloat ''1.50'' = Fin (3 / 2)"
  by (simp_all add: scenario_parseFloat_def)

lemma standing_of_finite:
  assumes "is_finite x"
  shows "(if js_ge x (15 / 4) \<and> 12 \<le> (n::nat) then 1 else 0) +
         (if js_lt x 2 \<and> 0 < n then 1 else 0) +
         (if js_ge x 2 \<and> (js_lt x (15 / 4) \<or> n < 12) then 1 else 0) =
         (if js_lt x 2 \<and> n = 0 then 0 else (1::nat))"
  using assms by (cases x) auto

lemma segments_lengths:
  assumes "\<forall>s\<in>set xs. is_finite (pf (cgpa s))"
  shows "length (filter (\<lambda>s. js_ge (pf (cgpa s)) (15 / 4) \<and> 12 \<le> credits s) xs) +
         length (filter (\<lambda>s. js_lt (pf (cgpa s)) 2 \<and> 0 < credits s) xs) +
         length (filter (\<lambda>s. js_ge (pf (cgpa s)) 2 \<and>
                    (js_lt (pf (cgpa s)) (15 / 4) \<or> credits s < 12)) xs) +
         length (filter (\<lambda>s. js_lt (pf (cgpa s)) 2 \<and> credits s = 0) xs) = length xs"
  using assms
proof (induction xs)
  case Nil
  then show ?case by simp
next
  case (Cons s xs)
  then have fin: "is_finite (pf (cgpa s))" by simp
  from Cons have ih: "length (filter (\<lambda>s. js_ge (pf (cgpa s)) (15 / 4) \<and> 12 \<le> credits s) xs) +
         length (filter (\<lambda>s. js_lt (pf (cgpa s)) 2 \<and> 0 < credits s) xs) +
         length (filter (\<lambda>s. js_ge (pf (cgpa s)) 2 \<and>
                    (js_lt (pf (cgpa s)) (15 / 4) \<or> credits s < 12)) xs) +
         length (filter (\<lambda>s. js_lt (pf (cgpa s)) 2 \<and> credits s = 0) xs) = length xs"
    by simp
  from fin obtain r where r: "pf (cgpa s) = Fin r" by (cases "pf (cgpa s)") auto
  show ?case using ih by (auto simp: r)
qed

text \<open>
  C2. When the \<open>cgpa\<close> text of every candidate parses to a finite number, the three
  lists of \<open>getDashboardPerformance\<close> are the candidates with \<open>cgpa \<ge> 3.75\<close> and
  \<open>credits \<ge> 12\<close>, those with \<open>cgpa < 2.00\<close> and \<open>credits > 0\<close>, and those with
  \<open>cgpa \<ge> 2.00\<close> and (\<open>cgpa < 3.75\<close> or \<open>credits < 12\<close>); each is a sublist of the
  candidates, in their order; no student is in two of them; a candidate is in exactly one
  of them, except that a candidate with \<open>cgpa < 2.00\<close> and \<open>credits = 0\<close> is in none;
  and the lengths of the three lists and the number of such excepted candidates add up to
  the number of candidates.
\<close>

theorem performance_lists_partition_candidates:
  assumes "\<forall>s\<in>set (candidateStudents semester st). is_finite (parseFloat (cgpa s))"
  shows "deansListStudents (getDashboardPerformance parseFloat semester st) =
           filter (\<lambda>s. js_ge (parseFloat (cgpa s)) (15 / 4) \<and> 12 \<le> credits s)
             (candidateStudents semester st)
         \<and> probationStudents (getDashboardPerformance parseFloat semester st) =
           filter (\<lambda>s. js_lt (parseFloat (cgpa s)) 2 \<and> 0 < credits s)
             (candidateStudents semester st)
         \<and> goodStandingStudents (getDashboardPerformance parseFloat semester st) =
           filter (\<lambda>s. js_ge (parseFloat (cgpa s)) 2 \<and>
                     (js_lt (parseFloat (cgpa s)) (15 / 4) \<or> credits s < 12))
             (candidateStudents semester st)
         \<and> subseq (deansListStudents (getDashboardPerformance parseFloat semester st))
             (candidateStudents semester st)
         \<and> subseq (probationStudents (getDashboardPerformance parseFloat semester st))
             (candidateStudents semester st)
         \<and> subseq (goodStandingStudents (getDashboardPerformance parseFloat semester st))
             (candidateStudents semester st)
         \<and> set (deansListStudents (getDashboardPerformance parseFloat semester st)) \<inter>
           set (probationStudents (getDashboardPerformance parseFloat semester st)) = {}
         \<and> set (deansListStudents (getDashboardPerformance parseFloat semester st)) \<inter>
           set (goodStandingStudents (getDashboardPerformance parseFloat semester st)) = {}
         \<and> set (probationStudents (getDashboardPerformance parseFloat semester st)) \<inter>
           set (goodStandingStudents (getDashboardPerformance parseFloat semester st)) = {}
         \<and> (\<forall>s\<in>set (candidateStudents semester st).
              segmentsContaining s (getDashboardPerformance parseFloat semester st) =
                (if js_lt (parseFloat (cgpa s)) 2 \<and> credits s = 0 then 0 else 1))
         \<and> length (deansListStudents (getDashboardPerformance parseFloat semester st)) +
           length (probationStudents (getDashboardPerformance parseFloat semester st)) +
           length (goodStandingStudents (getDashboardPerformance parseFloat semester st)) +
           length (filter (\<lambda>s. js_lt (parseFloat (cgpa s)) 2 \<and> credits s = 0)
                     (candidateStudents semester st)) =
           length (candidateStudents semester st)"
proof -
  let ?c = "candidateStudents semester st"
  let ?p = "getDashboardPerformance parseFloat semester st"
  have d: "deansListStudents ?p =
      filter (\<lambda>s. js_ge (parseFloat (cgpa s)) (15 / 4) \<and> 12 \<le> credits s) ?c"
    by (simp add: getDashboardPerformance_def Let_def)
  have p: "probationStudents ?p =
      filter (\<lambda>s. js_lt (parseFloat (cgpa s)) 2 \<and> 0 < credits s) ?c"
    by (simp add: getDashboardPerformance_def Let_def)
  have g: "goodStandingStudents ?p =
      filter (\<lambda>s. js_ge (parseFloat (cgpa s)) 2 \<and>
                (js_lt (parseFloat (cgpa s)) (15 / 4) \<or> credits s < 12)) ?c"
    by (simp add: getDashboardPerformance_def Let_def)
  have dp: "set (deansListStudents ?p) \<inter> set (probationStudents ?p) = {}"
    unfolding d p using js_ge_lt_excl js_lt_trans [of _ 2 "15 / 4"] by fastforce
  have dg: "set (deansListStudents ?p) \<inter> set (goodStandingStudents ?p) = {}"
    unfolding d g using js_ge_lt_excl by fastforce
  have pg: "set (probationStudents ?p) \<inter> set (goodStandingStudents ?p) = {}"
    unfolding p g using js_ge_lt_excl by fastforce
  have one: "\<forall>s\<in>set ?c. segmentsContaining s ?p =
      (if js_lt (parseFloat (cgpa s)) 2 \<and> credits s = 0 then 0 else 1)"
  proof
    fix s assume s: "s \<in> set ?c"
    with assms have "is_finite (parseFloat (cgpa s))" by blast
    from standing_of_finite [OF this, of "credits s"] s
    show "segmentsContaining s ?p =
      (if js_lt (parseFloat (cgpa s)) 2 \<and> credits s = 0 then 0 else 1)"
      by (simp add: segmentsContaining_def d p g)
  qed
  have len: "length (deansListStudents ?p) + length (probationStudents ?p) +
      length (goodStandingStudents ?p) +
      length (filter (\<lambda>s. js_lt (parseFloat (cgpa s)) 2 \<and> credits s = 0) ?c) = length ?c"
    unfolding d p g using segments_lengths [OF assms] .
  have sd: "subseq (deansListStudents ?p) ?c" by (simp add: d)
  have sp: "subseq (probationStudents ?p) ?c" by (simp add: p)
  have sg: "subseq (goodStandingStudents ?p) ?c" by (simp add: g)
  show ?thesis
    using d p g sd sp sg dp dg pg one len by blast
qed

theorem performance_lists_partition_candidates_witness:
  "is_finite (scenario_parseFloat ''3.80'') \<and> is_finite (scenario_parseFloat ''2.80'')
   \<and> is_finite (scenario_parseFloat ''1.50'')
   \<and> map cgpa (candidateStudents None scenarioB) = [''3.80'', ''2.80'', ''1.50'']
   \<and> map sid (deansListStudents (getDashboardPerformance scenario_parseFloat None scenarioB)) =
       [''S1'']
   \<and> probationStudents (getDashboardPerformance scenario_parseFloat None scenarioB) = []
   \<and> map sid (goodStandingStudents (getDashboardPerformance scenario_parseFloat None scenarioB)) =
       [''S2'']
   \<and> length (deansListStudents (getDashboardPerformance scenario_parseFloat None scenarioB)) +
     length (probationStudents (getDashboardPerformance scenario_parseFloat None scenarioB)) +
     length (goodStandingStudents (getDashboardPerformance scenario_parseFloat None scenarioB)) +
     length (filter (\<lambda>s. js_lt (scenario_parseFloat (cgpa s)) 2 \<and> credits s = 0)
               (candidateStudents None scenarioB)) = 3"
proof -
  have fin: "\<forall>s\<in>set (candidateStudents None scenarioB). is_finite (scenario_parseFloat (cgpa s))"
    by (simp add: scenarioB_candidates scenario_parse_values)
  have len: "length (candidateStudents None scenarioB) = 3"
    by (simp add: scenarioB_candidates)
  show ?thesis
    using performance_lists_partition_candidates [OF fin]
    by (simp add: len scenarioB_candidates scenario_parse_values)
qed

section \<open>Lookup by intake\<close>

text \<open>
  C6. \<open>getStudentsBySemester k\<close> is the list of \<open>getAllStudents\<close> with exactly those
  students kept whose \<open>intake\<close> is the string \<open>k\<close>, in the order of \<open>getAllStudents\<close>:
  it is a sublist of it, and holds the students of that intake and no others. The
  comparison is that of the strings, character by character, so it tells upper case
  from lower case: in Scenario A, whose students have intake \<open>Jun-25\<close>, the key
  \<open>jun-25\<close> selects nobody and the key \<open>Jun-25\<close> everybody.
\<close>

theorem getStudentsBySemester_is_filter_of_all:
  "getStudentsBySemester k st = filter (\<lambda>s. intake s = k) (getAllStudents st)
   \<and> subseq (getStudentsBySemester k st) (getAllStudents st)
   \<and> set (getStudentsBySemester k st) = {s \<in> set (getAllStudents st). intake s = k}
   \<and> getStudentsBySemester ''jun-25'' scenarioA = []
   \<and> getStudentsBySemester ''Jun-25'' scenarioA = getAllStudents scenarioA
   \<and> length (getAllStudents scenarioA) = 2"
proof -
  have a: "getStudentsBySemester ''jun-25'' scenarioA = []"
    by (simp add: scenario_defs)
  have b: "getStudentsBySemester ''Jun-25'' scenarioA = getAllStudents scenarioA"
    by (simp add: scenario_defs)
  have c: "length (getAllStudents scenarioA) = 2"
    by (simp add: scenario_defs)
  show ?thesis
    using a b c by (simp add: getStudentsBySemester_def)
qed

section \<open>The filter key of the dashboard\<close>

text \<open>
  C10. With the empty string as filter key, \<open>getDashboardMetrics\<close> and
  \<open>getDashboardPerformance\<close> return what they return with no key and with the key
  \<open>all\<close>: the candidates are all students. The three lists are the three filters of
  \<open>getAllStudents\<close>, and the counts and the average are those of \<open>getAllStudents\<close>.
  \<open>getStudentsBySemester\<close> with the empty string selects the students whose intake is
  empty; in Scenario B that is one student of three, \<open>S3\<close>, who is in none of the lists,
  while the dashboard with the empty key works on all three: its Dean's List is \<open>S1\<close>,
  its good standing list \<open>S2\<close>, and it counts three students, one on the Dean's List
  and one on probation.
\<close>

theorem empty_filter_key_means_all_students:
  "getDashboardMetrics parseFloat rnd (Some []) st = getDashboardMetrics parseFloat rnd None st
   \<and> getDashboardMetrics parseFloat rnd (Some []) st =
       getDashboardMetrics parseFloat rnd (Some ''all'') st
   \<and> getDashboardPerformance parseFloat (Some []) st = getDashboardPerformance parseFloat None st
   \<and> getDashboardPerformance parseFloat (Some []) st =
       getDashboardPerformance parseFloat (Some ''all'') st
   \<and> candidateStudents (Some []) st = getAllStudents st
   \<and> totalStudents (getDashboardMetrics parseFloat rnd (Some []) st) =
       length (getAllStudents st)
   \<and> getStudentsBySemester [] st = filter (\<lambda>s. intake s = []) (getAllStudents st)
   \<and> map sid (getStudentsBySemester [] scenarioB) = [''S3'']
   \<and> map sid (candidateStudents (Some []) scenarioB) = [''S1'', ''S2'', ''S3'']
   \<and> totalStudents (getDashboardMetrics parseFloat rnd (Some []) scenarioB) = 3
   \<and> getDashboardPerformance parseFloat (Some []) st =
       \<lparr>deansListStudents =
          filter (\<lambda>s. js_ge (parseFloat (cgpa s)) (15 / 4) \<and> 12 \<le> credits s)
            (getAllStudents st),
        probationStudents =
          filter (\<lambda>s. js_lt (parseFloat (cgpa s)) 2 \<and> 0 < credits s) (getAllStudents st),
        goodStandingStudents =
          filter (\<lambda>s. js_ge (parseFloat (cgpa s)) 2 \<and>
                    (js_lt (parseFloat (cgpa s)) (15 / 4) \<or> credits s < 12))
            (getAllStudents st)\<rparr>
   \<and> getDashboardMetrics parseFloat rnd (Some []) st =
       \<lparr>totalStudents = length (getAllStudents st),
        deansListCount =
          length (filter (\<lambda>s. js_ge (parseFloat (cgpa s)) (15 / 4) \<and> 12 \<le> credits s)
            (getAllStudents st)),
        probationCount =
          length (filter (\<lambda>s. js_lt (parseFloat (cgpa s)) 2) (getAllStudents st)),
        averageCGPA =
          js_div rnd
            (math_round
               (js_mul rnd
                  (if 0 < length (getAllStudents st)
                   then js_div rnd
                          (foldl (\<lambda>sum s. js_add rnd sum (parseFloat (cgpa s))) (Fin 0)
                             (getAllStudents st))
                          (Fin (of_nat (length (getAllStudents st))))
                   else Fin 0)
                  (Fin 100)))
            (Fin 100)\<rparr>
   \<and> map sid (deansListStudents
         (getDashboardPerformance scenario_parseFloat (Some []) scenarioB)) = [''S1'']
   \<and> probationStudents (getDashboardPerformance scenario_parseFloat (Some []) scenarioB) = []
   \<and> map sid (goodStandingStudents
         (getDashboardPerformance scenario_parseFloat (Some []) scenarioB)) = [''S2'']
   \<and> deansListCount (getDashboardMetrics scenario_parseFloat rnd (Some []) scenarioB) = 1
   \<and> probationCount (getDashboardMetrics scenario_parseFloat rnd (Some []) scenarioB) = 1
   \<and> filter (\<lambda>s. js_ge (scenario_parseFloat (cgpa s)) (15 / 4) \<and> 12 \<le> credits s)
         (getStudentsBySemester [] scenarioB) = []
   \<and> filter (\<lambda>s. js_ge (scenario_parseFloat (cgpa s)) 2 \<and>
                 (js_lt (scenario_parseFloat (cgpa s)) (15 / 4) \<or> credits s < 12))
         (getStudentsBySemester [] scenarioB) = []"
proof -
  have c: "candidateStudents (Some []) st = getAllStudents st" for st
    by (simp add: candidateStudents_def)
  have n: "candidateStudents None st = getAllStudents st" for st
    by (simp add: candidateStudents_def)
  have a: "candidateStudents (Some ''all'') st = getAllStudents st" for st
    by (simp add: candidateStudents_def)
  have m1: "getDashboardMetrics parseFloat rnd (Some []) st =
      getDashboardMetrics parseFloat rnd None st"
    by (simp add: getDashboardMetrics_def c n)
  have m2: "getDashboardMetrics parseFloat rnd (Some []) st =
      getDashboardMetrics parseFloat rnd (Some ''all'') st"
    by (simp add: getDashboardMetrics_def c a)
  have p1: "getDashboardPerformance parseFloat (Some []) st =
      getDashboardPerformance parseFloat None st"
    by (simp add: getDashboardPerformance_def c n)
  have p2: "getDashboardPerformance parseFloat (Some []) st =
      getDashboardPerformance parseFloat (Some ''all'') st"
    by (simp add: getDashboardPerformance_def c a)
  have t: "totalStudents (getDashboardMetrics parseFloat rnd (Some []) st) =
      length (getAllStudents st)" for st
    by (simp add: getDashboardMetrics_def Let_def c)
  have all: "getAllStudents scenarioB = candidateStudents None scenarioB"
    by (simp add: n)
  have b1: "map sid (getStudentsBySemester [] scenarioB) = [''S3'']"
    by (simp add: getStudentsBySemester_def all scenarioB_candidates)
  have b2: "map sid (candidateStudents (Some []) scenarioB) = [''S1'', ''S2'', ''S3'']"
    by (simp add: c all scenarioB_candidates)
  have b3: "totalStudents (getDashboardMetrics parseFloat rnd (Some []) scenarioB) = 3"
    by (simp add: t all scenarioB_candidates)
  have f: "getStudentsBySemester [] st = filter (\<lambda>s. intake s = []) (getAllStudents st)"
    by (simp add: getStudentsBySemester_def)
  have perf: "getDashboardPerformance parseFloat (Some []) st =
       \<lparr>deansListStudents =
          filter (\<lambda>s. js_ge (parseFloat (cgpa s)) (15 / 4) \<and> 12 \<le> credits s)
            (getAllStudents st),
        probationStudents =
          filter (\<lambda>s. js_lt (parseFloat (cgpa s)) 2 \<and> 0 < credits s) (getAllStudents st),
        goodStandingStudents =
          filter (\<lambda>s. js_ge (parseFloat (cgpa s)) 2 \<and>
                    (js_lt (parseFloat (cgpa s)) (15 / 4) \<or> credits s < 12))
            (getAllStudents st)\<rparr>"
    by (simp add: getDashboardPerformance_def Let_def c)
  have metr: "getDashboardMetrics parseFloat rnd (Some []) st =
       \<lparr>totalStudents = length (getAllStudents st),
        deansListCount =
          length (filter (\<lambda>s. js_ge (parseFloat (cgpa s)) (15 / 4) \<and> 12 \<le> credits s)
            (getAllStudents st)),
        probationCount =
          length (filter (\<lambda>s. js_lt (parseFloat (cgpa s)) 2) (getAllStudents st)),
        averageCGPA =
          js_div rnd
            (math_round
               (js_mul rnd
                  (if 0 < length (getAllStudents st)
                   then js_div rnd
                          (foldl (\<lambda>sum s. js_add rnd sum (parseFloat (cgpa s))) (Fin 0)
                             (getAllStudents st))
                          (Fin (of_nat (length (getAllStudents st))))
                   else Fin 0)
                  (Fin 100)))
            (Fin 100)\<rparr>"
    unfolding getDashboardMetrics_def Let_def c ..
  have cb: "candidateStudents (Some []) scenarioB = candidateStudents None scenarioB"
    by (simp add: c n)
  have s1: "map sid (deansListStudents
         (getDashboardPerformance scenario_parseFloat (Some []) scenarioB)) = [''S1'']"
    by (simp add: getDashboardPerformance_def Let_def cb scenarioB_candidates
        scenario_parse_values)
  have s2: "probationStudents (getDashboardPerformance scenario_parseFloat (Some []) scenarioB) = []"
    by (simp add: getDashboardPerformance_def Let_def cb scenarioB_candidates
        scenario_parse_values)
  have s3: "map sid (goodStandingStudents
         (getDashboardPerformance scenario_parseFloat (Some []) scenarioB)) = [''S2'']"
    by (simp add: getDashboardPerformance_def Let_def cb scenarioB_candidates
        scenario_parse_values)
  have s4: "deansListCount (getDashboardMetrics scenario_parseFloat rnd (Some []) scenarioB) = 1"
    by (simp add: getDashboardMetrics_def Let_def cb scenarioB_candidates scenario_parse_values)
  have s5: "probationCount (getDashboardMetrics scenario_parseFloat rnd (Some []) scenarioB) = 1"
    by (simp add: getDashboardMetrics_def Let_def cb scenarioB_candidates scenario_parse_values)
  have s6: "filter (\<lambda>s. js_ge (scenario_parseFloat (cgpa s)) (15 / 4) \<and> 12 \<le> credits s)
         (getStudentsBySemester [] scenarioB) = []"
    by (simp add: getStudentsBySemester_def all scenarioB_candidates scenario_parse_values)
  have s7: "filter (\<lambda>s. js_ge (scenario_parseFloat (cgpa s)) 2 \<and>
                 (js_lt (scenario_parseFloat (cgpa s)) (15 / 4) \<or> credits s < 12))
         (getStudentsBySemester [] scenarioB) = []"
    by (simp add: getStudentsBySemester_def all scenarioB_candidates scenario_parse_values)
  show ?thesis
    by (intro conjI m1 m2 p1 p2 c t f b1 b2 b3 perf metr s1 s2 s3 s4 s5 s6 s7)
qed

section \<open>Updating a student that is not stored\<close>

lemma map_get_None_iff: "map_get m k = None \<longleftrightarrow> k \<notin> set (map_keys m)"
  by (induction m) (auto simp: map_keys_def split: if_splits)

text \<open>
  C7. When no student is stored under the key, \<open>updateStudent\<close> returns the absent value
  (\<open>undefined\<close>, here \<open>None\<close>) as its result, and the storage it leaves is the storage
  it was called on: the students and the subjects are as before.
\<close>

theorem updateStudent_absent_key:
  assumes "map_get (students st) i = None"
  shows "updateStudent i updateData st = (None, st)
         \<and> students (snd (updateStudent i updateData st)) = students st
         \<and> subjects_map (snd (updateStudent i updateData st)) = subjects_map st
         \<and> getStudent i st = None"
  using assms by (simp add: updateStudent_def getStudent_def)

theorem updateStudent_absent_key_witness:
  "map_get (students scenarioA) ''S9'' = None
   \<and> updateStudent ''S9'' (no_update\<lparr>upd_name := Some ''Nobody''\<rparr>) scenarioA = (None, scenarioA)
   \<and> getStudent ''S9'' scenarioA = None"
proof -
  have h: "map_get (students scenarioA) ''S9'' = None"
    by (simp add: scenario_defs)
  show ?thesis
    using updateStudent_absent_key [OF h, of "no_update\<lparr>upd_name := Some ''Nobody''\<rparr>"] h
    by simp
qed

section \<open>Facts about \<open>Map\<close>\<close>

lemma map_get_set: "map_get (map_set k v m) k' = (if k' = k then Some v else map_get m k')"
  by (induction m) auto

lemma map_keys_set:
  "map_keys (map_set k v m) = (if k \<in> set (map_keys m) then map_keys m else map_keys m @ [k])"
  by (induction m) (force simp: map_keys_def)+



lemma map_get_filter:
  "map_get (filter (\<lambda>e. fst e \<noteq> k) m) k' = (if k' = k then None else map_get m k')"
  by (induction m) auto

lemma map_keys_filter:
  "map_keys (filter (\<lambda>e. fst e \<noteq> k) m) = filter (\<lambda>k'. k' \<noteq> k) (map_keys m)"
  by (induction m) (auto simp: map_keys_def)

lemma length_filter_distinct:
  "distinct ks \<Longrightarrow> length (filter (\<lambda>k'. k' \<noteq> k) ks) = length ks - (if k \<in> set ks then 1 else 0)"
  by (induction ks) (auto dest: length_pos_if_in_set)


lemma joined_after_filter:
  "map f (map snd (filter (\<lambda>e. fst e \<noteq> k) m)) =
   map snd (filter (\<lambda>e. fst e \<noteq> k) (zip (map fst m) (map f (map snd m))))"
  by (induction m) auto

lemma subseq_joined_filter: "subseq (map f (map snd (filter P m))) (map f (map snd m))"
  by (induction m) auto

section \<open>Deleting a student\<close>

text \<open>
  C8. \<open>deleteStudent i\<close> returns \<open>true\<close> exactly when a student was stored under the key
  \<open>i\<close>. Afterwards no student is stored under \<open>i\<close>: \<open>getStudent i\<close> finds nothing, and
  \<open>getAllStudents\<close> is what it was before with the entry of key \<open>i\<close> left out and the
  other students as before, in their order (one student fewer when a student was stored
  under \<open>i\<close>, the keys of a \<open>Map\<close> being distinct). The subjects are untouched:
  \<open>getSubjectsByStudentId\<close> returns for every key, \<open>i\<close> too, what it returned before.
\<close>

theorem deleteStudent_removes_student_only:
  "fst (deleteStudent i st) = (i \<in> set (map_keys (students st)))
   \<and> fst (deleteStudent i st) = (getStudent i st \<noteq> None)
   \<and> getStudent i (snd (deleteStudent i st)) = None
   \<and> i \<notin> set (map_keys (students (snd (deleteStudent i st))))
   \<and> getAllStudents (snd (deleteStudent i st)) =
       map snd (filter (\<lambda>e. fst e \<noteq> i) (zip (map_keys (students st)) (getAllStudents st)))
   \<and> subseq (getAllStudents (snd (deleteStudent i st))) (getAllStudents st)
   \<and> (k \<noteq> i \<longrightarrow> getStudent k (snd (deleteStudent i st)) = getStudent k st)
   \<and> subjects_map (snd (deleteStudent i st)) = subjects_map st
   \<and> getSubjectsByStudentId j (snd (deleteStudent i st)) = getSubjectsByStudentId j st
   \<and> getSubjectsByStudentId i (snd (deleteStudent i st)) = getSubjectsByStudentId i st
   \<and> (distinct (map_keys (students st)) \<longrightarrow>
        length (getAllStudents (snd (deleteStudent i st))) =
          length (getAllStudents st) - (if fst (deleteStudent i st) then 1 else 0))"
proof -
  let ?st = "snd (deleteStudent i st)"
  have sts: "students ?st = filter (\<lambda>e. fst e \<noteq> i) (students st)"
    by (simp add: deleteStudent_def map_delete_def)
  have subs: "subjects_map ?st = subjects_map st"
    by (simp add: deleteStudent_def map_delete_def)
  have join: "getSubjectsByStudentId j ?st = getSubjectsByStudentId j st" for j
    by (simp add: getSubjectsByStudentId_def subs)
  have r: "fst (deleteStudent i st) = (i \<in> set (map_keys (students st)))"
    using map_get_None_iff [of "students st" i]
    by (simp add: deleteStudent_def map_delete_def map_has_def)
  have r': "fst (deleteStudent i st) = (getStudent i st \<noteq> None)"
    by (simp add: deleteStudent_def map_delete_def map_has_def getStudent_def
        split: option.splits)
  have gone: "getStudent i ?st = None"
    by (simp add: getStudent_def sts map_get_filter)
  have nokey: "i \<notin> set (map_keys (students ?st))"
    by (simp add: sts map_keys_filter)
  have all: "getAllStudents ?st =
      map snd (filter (\<lambda>e. fst e \<noteq> i) (zip (map_keys (students st)) (getAllStudents st)))"
    using joined_after_filter
      [of "\<lambda>student. student\<lparr>subjects := getSubjectsByStudentId (sid student) st\<rparr>" i "students st"]
    by (simp add: getAllStudents_def map_values_def map_keys_def sts join)
  have sub: "subseq (getAllStudents ?st) (getAllStudents st)"
    using subseq_joined_filter
      [of "\<lambda>student. student\<lparr>subjects := getSubjectsByStudentId (sid student) st\<rparr>"
          "\<lambda>e. fst e \<noteq> i" "students st"]
    by (simp add: getAllStudents_def map_values_def sts join)
  have others: "k \<noteq> i \<longrightarrow> getStudent k ?st = getStudent k st"
    by (simp add: getStudent_def sts map_get_filter join split: option.splits)
  have len: "distinct (map_keys (students st)) \<longrightarrow>
      length (getAllStudents ?st) =
        length (getAllStudents st) - (if fst (deleteStudent i st) then 1 else 0)"
  proof
    assume d: "distinct (map_keys (students st))"
    have "length (getAllStudents ?st) = length (map_keys (students ?st))"
      by (simp add: getAllStudents_def map_values_def map_keys_def)
    also have "\<dots> = length (map_keys (students st)) - (if i \<in> set (map_keys (students st)) then 1 else 0)"
      using length_filter_distinct [OF d, of i] by (simp add: sts map_keys_filter)
    also have "length (map_keys (students st)) = length (getAllStudents st)"
      by (simp add: getAllStudents_def map_values_def map_keys_def)
    finally show "length (getAllStudents ?st) =
        length (getAllStudents st) - (if fst (deleteStudent i st) then 1 else 0)"
      by (simp add: r)
  qed
  show ?thesis
    using r r' gone nokey all sub others subs join [of j] join [of i] len by blast
qed

theorem deleteStudent_removes_student_only_witness:
  "''S2'' \<noteq> ''S1''
   \<and> distinct (map_keys (students scenarioA_with_subject))
   \<and> fst (deleteStudent ''S1'' scenarioA_with_subject)
   \<and> map sid (getAllStudents scenarioA_with_subject) = [''S1'', ''S2'']
   \<and> map sid (getAllStudents (snd (deleteStudent ''S1'' scenarioA_with_subject))) = [''S2'']
   \<and> getStudent ''S1'' (snd (deleteStudent ''S1'' scenarioA_with_subject)) = None
   \<and> getStudent ''S2'' (snd (deleteStudent ''S1'' scenarioA_with_subject)) =
       getStudent ''S2'' scenarioA_with_subject
   \<and> map code (getSubjectsByStudentId ''S1'' (snd (deleteStudent ''S1'' scenarioA_with_subject))) =
       [''CSIT111'']
   \<and> length (getAllStudents (snd (deleteStudent ''S1'' scenarioA_with_subject))) = 1"
proof -
  have st: "students scenarioA_with_subject = students scenarioA"
    by (simp add: scenarioA_with_subject_def createSubject_def Let_def)
  have keys: "map_keys (students scenarioA_with_subject) = [''S1'', ''S2'']"
    by (simp add: st map_keys_def scenario_defs)
  have subj: "map code (getSubjectsByStudentId ''S1'' scenarioA_with_subject) = [''CSIT111'']"
    by (simp add: scenarioA_with_subject_def createSubject_def scenario_subject_def or_null_def
        scenario_defs)
  show ?thesis
    using deleteStudent_removes_student_only [of "''S1''" scenarioA_with_subject "''S2''" "''S1''"]
    by (simp add: keys subj)
      (simp add: scenarioA_with_subject_def createSubject_def scenario_subject_def or_null_def
        scenario_defs)
qed

section \<open>Creating a student twice\<close>

lemma createStudent_students:
  "students (snd (createStudent x t st)) = map_set (new_id x) (newStudent x t) (students st)"
  by (simp add: createStudent_def newStudent_def Let_def)

lemma createStudent_subjects: "subjects_map (snd (createStudent x t st)) = subjects_map st"
  by (simp add: createStudent_def Let_def)

lemma createStudent_join:
  "getSubjectsByStudentId j (snd (createStudent x t st)) = getSubjectsByStudentId j st"
  by (simp add: getSubjectsByStudentId_def createStudent_subjects)


lemma updateStudent_keys:
  "map_keys (students (snd (updateStudent k u st))) = map_keys (students st)"
  using map_get_None_iff [of "students st" k]
  by (auto simp: updateStudent_def Let_def map_keys_set split: option.splits)




section \<open>Updating a stored student\<close>

text \<open>
  C3, as the specification states it, fails: the partial input is a partial
  \<open>InsertStudent\<close> and so may carry an \<open>id\<close>, which the spread writes over the \<open>id\<close> of
  the stored student. In Scenario A, updating the student stored under \<open>S1\<close> with the
  input \<open>{id: "S9"}\<close> leaves under the key \<open>S1\<close> a student whose \<open>id\<close> is \<open>S9\<close>.
\<close>

theorem updateStudent_alters_id_counterexample:
  "map_option sid (getStudent ''S1'' scenarioA) = Some ''S1''
   \<and> map_option sid (fst (updateStudent ''S1'' (no_update\<lparr>upd_id := Some ''S9''\<rparr>) scenarioA)) =
       Some ''S9''
   \<and> map_option sid
       (getStudent ''S1'' (snd (updateStudent ''S1'' (no_update\<lparr>upd_id := Some ''S9''\<rparr>) scenarioA))) =
       Some ''S9''"
  by (simp add: updateStudent_def getStudent_def spread_def no_update_def scenario_defs)

text \<open>
  C3, amended. For a student stored under the key \<open>i\<close>, \<open>updateStudent i\<close> stores under
  \<open>i\<close> the student whose every field of \<open>InsertStudent\<close> (the \<open>id\<close> among them) is the
  one of the partial input where the input has it and the stored one where it has not,
  and whose \<open>createdAt\<close> is the stored one; it returns that student with the subjects of
  \<open>i\<close> joined. The keys of the storage and their order, the students under the other
  keys and the subjects are unchanged. With no \<open>id\<close> in the input the \<open>id\<close> is unchanged.
\<close>

theorem updateStudent_merges_present_fields:
  assumes "map_get (students st) i = Some existing"
  shows "\<exists>updated.
           map_get (students (snd (updateStudent i u st))) i = Some updated
           \<and> fst (updateStudent i u st) =
               Some (updated\<lparr>subjects := getSubjectsByStudentId i st\<rparr>)
           \<and> getStudent i (snd (updateStudent i u st)) = fst (updateStudent i u st)
           \<and> sid updated = (case upd_id u of None \<Rightarrow> sid existing | Some v \<Rightarrow> v)
           \<and> name updated = (case upd_name u of None \<Rightarrow> name existing | Some v \<Rightarrow> v)
           \<and> email updated = (case upd_email u of None \<Rightarrow> email existing | Some v \<Rightarrow> v)
           \<and> intake updated = (case upd_intake u of None \<Rightarrow> intake existing | Some v \<Rightarrow> v)
           \<and> programme updated =
               (case upd_programme u of None \<Rightarrow> programme existing | Some v \<Rightarrow> v)
           \<and> cgpa updated = (case upd_cgpa u of None \<Rightarrow> cgpa existing | Some v \<Rightarrow> v)
           \<and> credits updated = (case upd_credits u of None \<Rightarrow> credits existing | Some v \<Rightarrow> v)
           \<and> subjects updated =
               (case upd_subjects u of None \<Rightarrow> subjects existing | Some v \<Rightarrow> v)
           \<and> createdAt updated = createdAt existing
           \<and> (upd_id u = None \<longrightarrow> sid updated = sid existing)
           \<and> (u = no_update \<longrightarrow> updated = existing)
           \<and> map_keys (students (snd (updateStudent i u st))) = map_keys (students st)
           \<and> (k \<noteq> i \<longrightarrow> getStudent k (snd (updateStudent i u st)) = getStudent k st)
           \<and> subjects_map (snd (updateStudent i u st)) = subjects_map st"
proof -
  let ?st = "snd (updateStudent i u st)"
  have sts: "students ?st = map_set i (spread existing u) (students st)"
    using assms by (simp add: updateStudent_def Let_def)
  have subs: "subjects_map ?st = subjects_map st"
    using assms by (simp add: updateStudent_def Let_def)
  have join: "getSubjectsByStudentId i ?st = getSubjectsByStudentId i st"
    by (simp add: getSubjectsByStudentId_def subs)
  have stored: "map_get (students ?st) i = Some (spread existing u)"
    by (simp add: sts map_get_set)
  have ret: "fst (updateStudent i u st) =
      Some ((spread existing u)\<lparr>subjects := getSubjectsByStudentId i st\<rparr>)"
    using assms by (simp add: updateStudent_def Let_def getSubjectsByStudentId_def)
  have fetch: "getStudent i ?st = fst (updateStudent i u st)"
    by (simp add: getStudent_def stored ret join)
  have keys: "map_keys (students ?st) = map_keys (students st)"
    by (rule updateStudent_keys)
  have others: "k \<noteq> i \<longrightarrow> getStudent k ?st = getStudent k st"
    by (simp add: getStudent_def getSubjectsByStudentId_def sts subs map_get_set
        split: option.splits)
  have none: "u = no_update \<longrightarrow> spread existing u = existing"
    by (simp add: spread_def no_update_def)
  have noid: "upd_id u = None \<longrightarrow> sid (spread existing u) = sid existing"
    by (simp add: spread_def)
  have fields:
    "sid (spread existing u) = (case upd_id u of None \<Rightarrow> sid existing | Some v \<Rightarrow> v)"
    "name (spread existing u) = (case upd_name u of None \<Rightarrow> name existing | Some v \<Rightarrow> v)"
    "email (spread existing u) = (case upd_email u of None \<Rightarrow> email existing | Some v \<Rightarrow> v)"
    "intake (spread existing u) = (case upd_intake u of None \<Rightarrow> intake existing | Some v \<Rightarrow> v)"
    "programme (spread existing u) =
       (case upd_programme u of None \<Rightarrow> programme existing | Some v \<Rightarrow> v)"
    "cgpa (spread existing u) = (case upd_cgpa u of None \<Rightarrow> cgpa existing | Some v \<Rightarrow> v)"
    "credits (spread existing u) =
       (case upd_credits u of None \<Rightarrow> credits existing | Some v \<Rightarrow> v)"
    "subjects (spread existing u) =
       (case upd_subjects u of None \<Rightarrow> subjects existing | Some v \<Rightarrow> v)"
    "createdAt (spread existing u) = createdAt existing"
    by (simp_all add: spread_def)
  show ?thesis
    apply (rule exI [of _ "spread existing u"])
    using stored ret fetch fields none noid keys others subs
    apply (intro conjI)
    apply assumption+
    done
qed

theorem updateStudent_merges_present_fields_witness:
  "map_option cgpa (map_get (students scenarioA) ''S1'') = Some ''3.80''
   \<and> ''S2'' \<noteq> ''S1''
   \<and> map_option cgpa
       (getStudent ''S1'' (snd (updateStudent ''S1'' (no_update\<lparr>upd_cgpa := Some ''1.50''\<rparr>) scenarioA))) =
       Some ''1.50''
   \<and> map_option sid
       (getStudent ''S1'' (snd (updateStudent ''S1'' (no_update\<lparr>upd_cgpa := Some ''1.50''\<rparr>) scenarioA))) =
       Some ''S1''
   \<and> map_option createdAt
       (getStudent ''S1'' (snd (updateStudent ''S1'' (no_update\<lparr>upd_cgpa := Some ''1.50''\<rparr>) scenarioA))) =
       Some ''2025-06-01T00:00:00.000Z''
   \<and> map_keys (students (snd (updateStudent ''S1'' (no_update\<lparr>upd_cgpa := Some ''1.50''\<rparr>) scenarioA))) =
       [''S1'', ''S2'']
   \<and> getStudent ''S2'' (snd (updateStudent ''S1'' (no_update\<lparr>upd_cgpa := Some ''1.50''\<rparr>) scenarioA)) =
       getStudent ''S2'' scenarioA"
proof -
  let ?s1 = "\<lparr>sid = ''S1'', name = ''Student S1'', email = ''S1@uow.edu.my'', intake = ''Jun-25'',
       programme = ''Bachelor of Information Systems (Hons)'', cgpa = ''3.80'', credits = 15,
       subjects = [], createdAt = ''2025-06-01T00:00:00.000Z''\<rparr>"
  let ?u = "no_update\<lparr>upd_cgpa := Some ''1.50''\<rparr>"
  have h: "map_get (students scenarioA) ''S1'' = Some ?s1"
    by (simp add: scenario_defs)
  have keysA: "map_keys (students scenarioA) = [''S1'', ''S2'']"
    by (simp add: map_keys_def scenario_defs)
  have u: "upd_id ?u = None" "upd_cgpa ?u = Some ''1.50''"
    by (simp_all add: no_update_def)
  have neq: "''S2'' \<noteq> ''S1''"
    by simp
  from updateStudent_merges_present_fields [OF h, of ?u "''S2''"]
  obtain updated where
    "fst (updateStudent ''S1'' ?u scenarioA) =
        Some (updated\<lparr>subjects := getSubjectsByStudentId ''S1'' scenarioA\<rparr>)
     \<and> getStudent ''S1'' (snd (updateStudent ''S1'' ?u scenarioA)) =
        fst (updateStudent ''S1'' ?u scenarioA)
     \<and> cgpa updated = (case upd_cgpa ?u of None \<Rightarrow> cgpa ?s1 | Some v \<Rightarrow> v)
     \<and> (upd_id ?u = None \<longrightarrow> sid updated = sid ?s1)
     \<and> createdAt updated = createdAt ?s1
     \<and> map_keys (students (snd (updateStudent ''S1'' ?u scenarioA))) =
        map_keys (students scenarioA)
     \<and> (''S2'' \<noteq> ''S1'' \<longrightarrow>
        getStudent ''S2'' (snd (updateStudent ''S1'' ?u scenarioA)) = getStudent ''S2'' scenarioA)
     \<and> subjects_map (snd (updateStudent ''S1'' ?u scenarioA)) = subjects_map scenarioA"
    by (elim exE conjE) (rule that, intro conjI, assumption+)
  then have a: "fst (updateStudent ''S1'' ?u scenarioA) =
        Some (updated\<lparr>subjects := getSubjectsByStudentId ''S1'' scenarioA\<rparr>)"
    and a': "getStudent ''S1'' (snd (updateStudent ''S1'' ?u scenarioA)) =
        fst (updateStudent ''S1'' ?u scenarioA)"
    and b1: "cgpa updated = ''1.50''"
    and b2: "sid updated = ''S1''"
    and b3: "createdAt updated = ''2025-06-01T00:00:00.000Z''"
    and c: "map_keys (students (snd (updateStudent ''S1'' ?u scenarioA))) = [''S1'', ''S2'']"
    and s2: "getStudent ''S2'' (snd (updateStudent ''S1'' ?u scenarioA)) =
        getStudent ''S2'' scenarioA"
    and e: "subjects_map (snd (updateStudent ''S1'' ?u scenarioA)) = subjects_map scenarioA"
    using neq by (simp_all add: u keysA)
  show ?thesis
    by (simp add: a' a b1 b2 b3 c s2 h)
qed

section \<open>Creating a student and fetching it\<close>

text \<open>
  C4, as the specification states it, fails: the list that \<open>getStudent\<close> joins is that
  of the stored subjects whose \<open>studentId\<close> is the key, and a subject may be stored
  before its student (\<open>createSubject\<close> does not ask for the student, \<open>deleteStudent\<close>
  keeps the subjects). With one subject of \<open>S1\<close> stored and no student, \<open>createStudent\<close>
  for \<open>S1\<close> returns the student with an empty subject list, and \<open>getStudent\<close> then
  returns it with that subject.
\<close>

theorem createStudent_joined_subjects_counterexample:
  "getStudent ''S1'' orphan_subject = None
   \<and> subjects (fst (createStudent (scenario_input ''S1'' ''Jun-25'' ''3.80'' 15)
        ''2025-06-01T00:00:00.000Z'' orphan_subject)) = []
   \<and> map_option (\<lambda>s. map code (subjects s))
       (getStudent ''S1'' (snd (createStudent (scenario_input ''S1'' ''Jun-25'' ''3.80'' 15)
          ''2025-06-01T00:00:00.000Z'' orphan_subject))) = Some [''CSIT111'']"
  by (simp add: orphan_subject_def createSubject_def scenario_subject_def or_null_def
      getStudent_def scenario_defs)

text \<open>
  C4, amended. After \<open>createStudent\<close>, \<open>getStudent\<close> with the \<open>id\<close> of the input finds
  the student: its fields are those of the input, \<open>credits\<close> is \<open>0\<close> when the input has
  none, \<open>createdAt\<close> is the time of the creation, and its subject list is the list of the
  stored subjects whose \<open>studentId\<close> is that \<open>id\<close>. \<open>createStudent\<close> itself returns the same
  student with an empty subject list, and stores no subject. So the fetched record is the
  returned one when no stored subject refers to the \<open>id\<close>, as in a storage that holds no
  subject.
\<close>

theorem createStudent_then_getStudent:
  "getStudent (new_id x) (snd (createStudent x now st)) =
     Some \<lparr>sid = new_id x, name = new_name x, email = new_email x, intake = new_intake x,
           programme = new_programme x, cgpa = new_cgpa x,
           credits = (case new_credits x of None \<Rightarrow> 0 | Some c \<Rightarrow> c),
           subjects = getSubjectsByStudentId (new_id x) st,
           createdAt = now\<rparr>
   \<and> fst (createStudent x now st) =
     \<lparr>sid = new_id x, name = new_name x, email = new_email x, intake = new_intake x,
      programme = new_programme x, cgpa = new_cgpa x,
      credits = (case new_credits x of None \<Rightarrow> 0 | Some c \<Rightarrow> c),
      subjects = [],
      createdAt = now\<rparr>
   \<and> subjects_map (snd (createStudent x now st)) = subjects_map st
   \<and> (getSubjectsByStudentId (new_id x) st = [] \<longrightarrow>
        getStudent (new_id x) (snd (createStudent x now st)) = Some (fst (createStudent x now st)))
   \<and> (subjects_map st = [] \<longrightarrow>
        getStudent (new_id x) (snd (createStudent x now st)) = Some (fst (createStudent x now st)))"
proof -
  let ?st = "snd (createStudent x now st)"
  have get: "map_get (students ?st) (new_id x) = Some (newStudent x now)"
    by (simp add: createStudent_students map_get_set)
  have fetch: "getStudent (new_id x) ?st =
     Some \<lparr>sid = new_id x, name = new_name x, email = new_email x, intake = new_intake x,
           programme = new_programme x, cgpa = new_cgpa x,
           credits = (case new_credits x of None \<Rightarrow> 0 | Some c \<Rightarrow> c),
           subjects = getSubjectsByStudentId (new_id x) st,
           createdAt = now\<rparr>"
    by (simp add: getStudent_def get createStudent_join) (simp add: newStudent_def)
  have ret: "fst (createStudent x now st) =
     \<lparr>sid = new_id x, name = new_name x, email = new_email x, intake = new_intake x,
      programme = new_programme x, cgpa = new_cgpa x,
      credits = (case new_credits x of None \<Rightarrow> 0 | Some c \<Rightarrow> c),
      subjects = [],
      createdAt = now\<rparr>"
    by (simp add: createStudent_def newStudent_def Let_def)
  have none: "subjects_map st = [] \<longrightarrow> getSubjectsByStudentId (new_id x) st = []"
    by (simp add: getSubjectsByStudentId_def map_values_def)
  have same: "getSubjectsByStudentId (new_id x) st = [] \<longrightarrow>
      getStudent (new_id x) ?st = Some (fst (createStudent x now st))"
    by (simp add: fetch ret)
  show ?thesis
    using fetch ret createStudent_subjects [of x now st] same none by blast
qed

theorem createStudent_then_getStudent_witness:
  "getSubjectsByStudentId ''S3'' scenarioA = []
   \<and> subjects_map scenarioA = []
   \<and> getSubjectsByStudentId ''S1'' orphan_subject \<noteq> []
   \<and> getStudent ''S3'' scenarioB = Some scenario_s3
   \<and> map_option credits
       (getStudent ''S4''
          (snd (createStudent
             ((scenario_input ''S4'' ''Jun-25'' ''3.75'' 12)\<lparr>new_credits := None\<rparr>)
             ''2025-06-01T00:00:03.000Z'' scenarioA))) = Some 0"
proof -
  let ?x = "scenario_input ''S3'' [] ''1.50'' 0"
  let ?y = "(scenario_input ''S4'' ''Jun-25'' ''3.75'' 12)\<lparr>new_credits := None\<rparr>"
  have idx: "new_id ?x = ''S3''" and idy: "new_id ?y = ''S4''" and cy: "new_credits ?y = None"
    by (simp_all add: scenario_input_def)
  have h: "getSubjectsByStudentId ''S3'' scenarioA = []"
    by (simp add: scenario_defs)
  have o: "getSubjectsByStudentId ''S1'' orphan_subject \<noteq> []"
    by (simp add: orphan_subject_def createSubject_def scenario_subject_def or_null_def
        scenario_defs)
  have b: "scenarioB = snd (createStudent ?x ''2025-06-01T00:00:02.000Z'' scenarioA)"
    by (simp add: scenarioB_def)
  have s: "scenario_s3 = fst (createStudent ?x ''2025-06-01T00:00:02.000Z'' scenarioA)"
    by (simp add: scenario_s3_def)
  have one: "getStudent ''S3'' scenarioB = Some scenario_s3"
    using createStudent_then_getStudent [of ?x "''2025-06-01T00:00:02.000Z''" scenarioA] h
    by (simp only: idx b s)
  have two: "map_option credits
       (getStudent ''S4'' (snd (createStudent ?y ''2025-06-01T00:00:03.000Z'' scenarioA))) = Some 0"
    using createStudent_then_getStudent [of ?y "''2025-06-01T00:00:03.000Z''" scenarioA]
    by (simp add: idy cy)
  have nosub: "subjects_map scenarioA = []"
    by (simp add: scenario_defs)
  show ?thesis
    using h nosub o one two by simp
qed

section \<open>Binary64 rounding\<close>

lemma powi_less_cancel: "(2::rat) powi a < 2 powi b \<Longrightarrow> a < b"
  using power_int_increasing [of b a "2::rat"] by (cases "a < b") auto

lemma powi_le_cancel: "(2::rat) powi a \<le> 2 powi b \<Longrightarrow> a \<le> b"
  using power_int_strict_increasing [of b a "2::rat"] by (cases "a \<le> b") auto

lemma powi_unique:
  fixes x :: rat
  assumes "2 powi e \<le> x" "x < 2 powi (e + 1)" "2 powi e' \<le> x" "x < 2 powi (e' + 1)"
  shows "e = e'"
proof -
  have "(2::rat) powi e < 2 powi (e' + 1)" using assms by linarith
  then have a: "e < e' + 1" by (rule powi_less_cancel)
  have "(2::rat) powi e' < 2 powi (e + 1)" using assms by linarith
  then have b: "e' < e + 1" by (rule powi_less_cancel)
  from a b show ?thesis by linarith
qed

lemma bitlen_powi_bounds:
  assumes "0 < p"
  shows "2 powi (bitlen p - 1) \<le> (of_int p :: rat)" and "(of_int p :: rat) < 2 powi bitlen p"
proof -
  have b1: "1 \<le> bitlen p"
    using assms by (auto simp: bitlen_alt_def)
  from bitlen_bounds [OF assms] have lo: "2 ^ nat (bitlen p - 1) \<le> p" and hi: "p < 2 ^ nat (bitlen p)"
    by auto
  from lo have "(of_int (2 ^ nat (bitlen p - 1)) :: rat) \<le> of_int p"
    by (simp only: of_int_le_iff)
  then show "2 powi (bitlen p - 1) \<le> (of_int p :: rat)"
    using b1 by (simp add: power_int_def)
  from hi have "(of_int p :: rat) < of_int (2 ^ nat (bitlen p))"
    by (simp only: of_int_less_iff)
  then show "(of_int p :: rat) < 2 powi bitlen p"
    using b1 by (simp add: power_int_def)
qed

lemma ilog2_bounds:
  assumes "0 < x"
  shows "2 powi ilog2 x \<le> x \<and> x < 2 powi (ilog2 x + 1)"
proof -
  obtain p q where pq: "quotient_of x = (p, q)" by (cases "quotient_of x")
  then have q: "0 < q" and x: "x = of_int p / of_int q"
    by (auto simp: quotient_of_denom_pos intro: quotient_of_div)
  with assms have p: "0 < p"
    by (simp add: zero_less_divide_iff)
  let ?bp = "bitlen p" and ?bq = "bitlen q"
  let ?d = "?bp - ?bq"
  have qr: "(0::rat) < of_int q" using q by simp
  have lo: "2 powi (?d - 1) \<le> x"
  proof -
    have "2 powi (?d - 1) * (of_int q :: rat) \<le> 2 powi (?d - 1) * 2 powi ?bq"
      using bitlen_powi_bounds(2) [OF q] by (intro mult_left_mono) auto
    also have "\<dots> = 2 powi (?bp - 1)"
      by (simp flip: power_int_add)
    also have "\<dots> \<le> of_int p"
      by (rule bitlen_powi_bounds(1) [OF p])
    finally show ?thesis
      using qr by (simp add: x pos_le_divide_eq)
  qed
  have hi: "x < 2 powi (?d + 1)"
  proof -
    have "(of_int p :: rat) < 2 powi ?bp"
      by (rule bitlen_powi_bounds(2) [OF p])
    also have "\<dots> = 2 powi (?d + 1) * 2 powi (?bq - 1)"
      by (simp flip: power_int_add)
    also have "\<dots> \<le> 2 powi (?d + 1) * of_int q"
      using bitlen_powi_bounds(1) [OF q] by (intro mult_left_mono) auto
    finally show ?thesis
      using qr by (simp add: x pos_divide_less_eq)
  qed
  show ?thesis
  proof (cases "2 powi ?d \<le> x")
    case True
    then have "ilog2 x = ?d" by (simp add: ilog2_def pq)
    with True hi show ?thesis by simp
  next
    case False
    then have "ilog2 x = ?d - 1" by (simp add: ilog2_def pq)
    with False lo show ?thesis by simp
  qed
qed

lemma ilog2_eqI:
  assumes "2 powi e \<le> x" "x < 2 powi (e + 1)"
  shows "ilog2 x = e"
proof -
  have "0 < (2::rat) powi e" by simp
  with assms(1) have "0 < x" by linarith
  from ilog2_bounds [OF this] assms show ?thesis
    using powi_unique by blast
qed

lemma round_half_even_error: "\<bar>of_int (round_half_even z) - z\<bar> \<le> 1 / 2"
proof -
  have "of_int \<lfloor>z\<rfloor> \<le> z" "z < of_int \<lfloor>z\<rfloor> + 1"
    by linarith+
  then show ?thesis
    by (auto simp: round_half_even_def Let_def)
qed

lemma round_half_even_le: "z \<le> of_int N \<Longrightarrow> round_half_even z \<le> N"
proof -
  assume a: "z \<le> of_int N"
  then have f: "\<lfloor>z\<rfloor> \<le> N" by (simp add: floor_le_iff)
  show ?thesis
  proof (cases "\<lfloor>z\<rfloor> = N")
    case True
    with a have "z = of_int \<lfloor>z\<rfloor>" by (metis of_int_floor_le order_antisym)
    then have "z - of_int \<lfloor>z\<rfloor> = 0" by simp
    then show ?thesis using True by (simp add: round_half_even_def Let_def)
  next
    case False
    with f have "\<lfloor>z\<rfloor> + 1 \<le> N" by simp
    then show ?thesis by (auto simp: round_half_even_def Let_def)
  qed
qed

lemma round_half_even_nonneg: "0 \<le> z \<Longrightarrow> 0 \<le> round_half_even z"
  by (auto simp: round_half_even_def Let_def)

lemma round_binary64_bound:
  assumes "\<bar>x\<bar> \<le> 2 ^ k" and "k \<le> 1023"
  shows "\<exists>y. round_binary64 x = Fin y \<and> \<bar>y - x\<bar> \<le> 2 ^ k / 2 ^ 53 \<and> \<bar>y\<bar> \<le> 2 ^ k"
proof (cases "x = 0")
  case True
  then show ?thesis by (simp add: round_binary64_def)
next
  case False
  define a where "a = \<bar>x\<bar>"
  define e where "e = max (ilog2 a) (- 1022)"
  define ulp :: rat where "ulp = 2 powi (e - 52)"
  define m where "m = round_half_even (a / ulp)"
  define y where "y = of_int m * ulp"
  have a: "0 < a" using False by (simp add: a_def)
  have ulp: "0 < ulp" by (simp add: ulp_def)
  have "2 powi ilog2 a \<le> a" using ilog2_bounds [OF a] by simp
  also have "a \<le> 2 powi int k" using assms(1) by (simp add: a_def)
  finally have "ilog2 a \<le> int k" by (rule powi_le_cancel)
  then have ek: "e \<le> int k" by (simp add: e_def)
  have err: "\<bar>y - a\<bar> \<le> ulp / 2"
  proof -
    have "y - a = (of_int m - a / ulp) * ulp"
      using ulp by (simp add: y_def field_simps)
    then have "\<bar>y - a\<bar> = \<bar>of_int m - a / ulp\<bar> * ulp"
      using ulp by (simp add: abs_mult)
    also have "\<dots> \<le> 1 / 2 * ulp"
      using round_half_even_error [of "a / ulp"] ulp
      by (intro mult_right_mono) (auto simp: m_def)
    finally show ?thesis by simp
  qed
  have "ulp / 2 = 2 powi (e - 53)"
    using power_int_diff [of "2::rat" "e - 52" 1] by (simp add: ulp_def)
  also have "\<dots> \<le> 2 powi (int k - 53)"
    using ek by (intro power_int_increasing) auto
  also have "\<dots> = 2 ^ k / 2 ^ 53"
    using power_int_diff [of "2::rat" "int k" 53] by simp
  finally have half: "ulp / 2 \<le> 2 ^ k / 2 ^ 53" .
  have top: "2 ^ k = of_int (2 ^ nat (int k - e + 52)) * ulp"
  proof -
    have "0 \<le> int k - e + 52" using ek by simp
    then have "(of_int (2 ^ nat (int k - e + 52)) :: rat) = 2 powi (int k - e + 52)"
      by (simp add: power_int_def)
    then have "of_int (2 ^ nat (int k - e + 52)) * ulp = 2 powi (int k - e + 52 + (e - 52))"
      unfolding ulp_def by (subst power_int_add) auto
    then show ?thesis by simp
  qed
  have "a / ulp \<le> of_int (2 ^ nat (int k - e + 52))"
    using assms(1) ulp top by (simp add: a_def pos_divide_le_eq)
  then have "m \<le> 2 ^ nat (int k - e + 52)"
    unfolding m_def by (rule round_half_even_le)
  then have "(of_int m :: rat) \<le> of_int (2 ^ nat (int k - e + 52))"
    by (simp only: of_int_le_iff)
  then have yk: "y \<le> 2 ^ k"
    unfolding y_def top using ulp by (intro mult_right_mono) auto
  have "0 \<le> a / ulp" using a ulp by simp
  then have "0 \<le> m" unfolding m_def by (rule round_half_even_nonneg)
  then have y0: "0 \<le> y" using ulp by (simp add: y_def)
  have "(2::rat) ^ k \<le> 2 ^ 1023"
    using assms(2) by (intro power_increasing) auto
  also have "\<dots> < (2::rat) ^ 1024" by simp
  finally have fin: "\<not> 2 ^ 1024 \<le> y" using yk by linarith
  have res: "round_binary64 x = Fin (if 0 < x then y else - y)"
    using False fin
    by (simp add: round_binary64_def Let_def a_def [symmetric] e_def [symmetric]
        ulp_def [symmetric] m_def [symmetric] y_def [symmetric])
  have "\<bar>(if 0 < x then y else - y) - x\<bar> = \<bar>y - a\<bar>"
    using False by (auto simp: a_def)
  with err half have e1: "\<bar>(if 0 < x then y else - y) - x\<bar> \<le> 2 ^ k / 2 ^ 53"
    by linarith
  have e2: "\<bar>if 0 < x then y else - y\<bar> \<le> 2 ^ k"
    using y0 yk by auto
  from res e1 e2 show ?thesis by blast
qed

lemma round_binary64_zero: "round_binary64 0 = Fin 0"
  by (simp add: round_binary64_def)

lemma round_half_even_eqI:
  assumes "\<bar>z - of_int m\<bar> < 1 / 2"
  shows "round_half_even z = m"
proof -
  have f: "of_int \<lfloor>z\<rfloor> \<le> z" "z < of_int \<lfloor>z\<rfloor> + 1"
    by linarith+
  have b: "of_int m - 1 / 2 < z" "z < of_int m + 1 / 2"
    using assms by linarith+
  have "z < of_int (m + 1)" "of_int (m - 1) \<le> z"
    using b by simp_all
  then have "\<lfloor>z\<rfloor> < m + 1" "m - 1 \<le> \<lfloor>z\<rfloor>"
    by (simp_all only: floor_less_iff le_floor_iff)
  then consider "\<lfloor>z\<rfloor> = m" | "\<lfloor>z\<rfloor> = m - 1"
    by linarith
  then show ?thesis
  proof cases
    case 1
    with b show ?thesis
      by (auto simp: round_half_even_def Let_def)
  next
    case 2
    with b show ?thesis
      by (auto simp: round_half_even_def Let_def)
  qed
qed

lemma round_half_even_tie:
  assumes "z = of_int m + 1 / 2" and "even m"
  shows "round_half_even z = m"
proof -
  have "\<lfloor>z\<rfloor> = m"
    unfolding assms(1) by (simp add: floor_eq_iff)
  with assms show ?thesis
    by (simp add: round_half_even_def Let_def)
qed

lemma round_binary64_pos:
  assumes "2 powi e \<le> x" and "x < 2 powi (e + 1)" and "- 1022 \<le> e"
    and "round_half_even (x / 2 powi (e - 52)) = m"
    and "of_int m * 2 powi (e - 52) = y" and "y < 2 ^ 1024"
  shows "round_binary64 x = Fin y"
proof -
  have "0 < (2::rat) powi e" by simp
  with assms(1) have x: "0 < x" by linarith
  then have ax: "\<bar>x\<bar> = x" and x0: "x \<noteq> 0" by simp_all
  have e: "max (ilog2 x) (- 1022) = e"
    using ilog2_eqI [OF assms(1,2)] assms(3) by simp
  have ny: "\<not> 2 ^ 1024 \<le> y"
    using assms(6) by simp
  show ?thesis
    unfolding round_binary64_def Let_def ax e assms(4) assms(5)
    using x x0 ny by simp
qed

lemma rb_227: "round_binary64 (227 / 100) = Fin (5111585577065513 / 2251799813685248)"
proof (rule round_binary64_pos [where e = 1 and m = 5111585577065513])
  show "round_half_even (227 / 100 / 2 powi (1 - 52)) = 5111585577065513"
    by (rule round_half_even_eqI) simp
qed simp_all

section \<open>The metrics of an empty candidate list, and the average\<close>

lemma math_round_zero: "math_round (Fin 0) = Fin 0"
  by (simp add: floor_eq_iff)

lemma round_binary64_step:
  assumes "\<bar>x\<bar> \<le> 2 * 2 ^ k" and "k \<le> 1000" and "d = 2 ^ k / 2 ^ 52"
  shows "\<exists>y. round_binary64 x = Fin y \<and> \<bar>y - x\<bar> \<le> d"
proof -
  have "\<bar>x\<bar> \<le> 2 ^ (k + 1)" using assms(1) by simp
  moreover have "k + 1 \<le> 1023" using assms(2) by simp
  ultimately obtain y where "round_binary64 x = Fin y" "\<bar>y - x\<bar> \<le> 2 ^ (k + 1) / 2 ^ 53"
    using round_binary64_bound [of x "k + 1"] by blast
  then show ?thesis using assms(3) by auto
qed

lemma sum_binary64_error:
  assumes "\<bar>s - t\<bar> \<le> of_nat j * d"
    and "\<bar>t\<bar> + (\<Sum>v\<leftarrow>vs. \<bar>v\<bar>) \<le> 2 ^ k"
    and "of_nat (j + length vs) * d \<le> (2 ^ k :: rat)"
    and "k \<le> 1000" and "d = 2 ^ k / 2 ^ 52"
  shows "\<exists>s'. foldl (js_add round_binary64) (Fin s) (map Fin vs) = Fin s' \<and>
           \<bar>s' - (t + sum_list vs)\<bar> \<le> of_nat (j + length vs) * d"
  using assms(1,2,3)
proof (induction vs arbitrary: s t j)
  case Nil
  then show ?case by simp
next
  case (Cons v vs)
  have d0: "0 \<le> d" unfolding assms(5) by simp
  have "of_nat j * d \<le> of_nat (j + length (v # vs)) * d"
    using d0 by (intro mult_right_mono) auto
  with Cons.prems(3) have jd: "of_nat j * d \<le> 2 ^ k" by linarith
  have rest: "0 \<le> (\<Sum>v\<leftarrow>vs. \<bar>v\<bar>)"
    by (rule sum_list_nonneg) auto
  have tv: "\<bar>t\<bar> + \<bar>v\<bar> + (\<Sum>v\<leftarrow>vs. \<bar>v\<bar>) \<le> 2 ^ k"
    using Cons.prems(2) by (simp add: add.assoc)
  have "\<bar>s + v\<bar> \<le> \<bar>s - t\<bar> + (\<bar>t\<bar> + \<bar>v\<bar>)"
    by linarith
  with Cons.prems(1) jd tv rest have "\<bar>s + v\<bar> \<le> 2 * 2 ^ k"
    by linarith
  from round_binary64_step [OF this assms(4,5)]
  obtain y where y: "round_binary64 (s + v) = Fin y" and ye: "\<bar>y - (s + v)\<bar> \<le> d"
    by blast
  have "\<bar>y - (t + v)\<bar> \<le> \<bar>y - (s + v)\<bar> + \<bar>s - t\<bar>"
    by linarith
  with ye Cons.prems(1) have "\<bar>y - (t + v)\<bar> \<le> d + of_nat j * d"
    by linarith
  also have "\<dots> = of_nat (Suc j) * d"
    by (simp add: algebra_simps)
  finally have p1: "\<bar>y - (t + v)\<bar> \<le> of_nat (Suc j) * d" .
  have p2: "\<bar>t + v\<bar> + (\<Sum>v\<leftarrow>vs. \<bar>v\<bar>) \<le> 2 ^ k"
    using tv by linarith
  have p3: "of_nat (Suc j + length vs) * d \<le> (2 ^ k :: rat)"
    using Cons.prems(3) by simp
  from Cons.IH [OF p1 p2 p3]
  obtain s' where "foldl (js_add round_binary64) (Fin y) (map Fin vs) = Fin s'"
    and "\<bar>s' - (t + v + sum_list vs)\<bar> \<le> of_nat (Suc j + length vs) * d"
    by blast
  then show ?case
    by (simp add: y add.assoc)
qed

lemma average_binary64_error:
  assumes vs: "vs \<noteq> []"
    and sum: "(\<Sum>v\<leftarrow>vs. \<bar>v\<bar>) \<le> 2 ^ k"
    and len: "length vs \<le> 2 ^ 52"
    and k: "k \<le> 1000"
  shows "\<exists>K r.
           js_div round_binary64
             (math_round (js_mul round_binary64
                (js_div round_binary64
                   (foldl (js_add round_binary64) (Fin 0) (map Fin vs))
                   (Fin (of_nat (length vs))))
                (Fin 100)))
             (Fin 100) = Fin r
           \<and> round_binary64 (of_int K / 100) = Fin r
           \<and> \<bar>of_int K / 100 - arithmetic_mean vs\<bar> \<le> 1 / 200 + 2 ^ k / 2 ^ 49
           \<and> \<bar>r - of_int K / 100\<bar> \<le> 2 ^ k / 2 ^ 49"
proof -
  define d :: rat where "d = 2 ^ k / 2 ^ 52"
  define B :: rat where "B = 2 ^ k"
  define n :: rat where "n = of_nat (length vs)"
  define m where "m = arithmetic_mean vs"
  have B1: "1 \<le> B" by (simp add: B_def)
  have dB: "d * 2 ^ 52 = B" by (simp add: d_def B_def)
  have d0: "0 \<le> d" by (simp add: d_def)
  have n1: "1 \<le> n" using vs by (cases vs) (auto simp: n_def)
  then have n0: "0 < n" by linarith
  have "n \<le> 2 ^ 52"
    unfolding n_def using len by (metis of_nat_le_iff of_nat_numeral of_nat_power)
  then have "n * d \<le> 2 ^ 52 * d"
    using d0 by (rule mult_right_mono)
  with dB have nd: "n * d \<le> B" by (simp add: mult.commute)
  have "\<exists>s'. foldl (js_add round_binary64) (Fin 0) (map Fin vs) = Fin s' \<and>
           \<bar>s' - (0 + sum_list vs)\<bar> \<le> of_nat (0 + length vs) * d"
    using sum nd k by (intro sum_binary64_error [where k = k]) (simp_all add: d_def B_def n_def)
  then obtain s where s: "foldl (js_add round_binary64) (Fin 0) (map Fin vs) = Fin s"
    and se: "\<bar>s - sum_list vs\<bar> \<le> n * d"
    by (auto simp: n_def)
  have "\<bar>sum_list vs\<bar> \<le> (\<Sum>v\<leftarrow>vs. \<bar>v\<bar>)"
    by (rule sum_list_abs)
  with sum have "\<bar>sum_list vs\<bar> \<le> B" by (simp add: B_def)
  with se nd have sb: "\<bar>s\<bar> \<le> 2 * B"
    by linarith
  have "\<bar>s / n\<bar> = \<bar>s\<bar> / n"
    using n0 by (simp add: abs_divide)
  also have "\<dots> \<le> \<bar>s\<bar> / 1"
    using n1 by (intro divide_left_mono) auto
  finally have "\<bar>s / n\<bar> \<le> 2 * 2 ^ k"
    using sb by (simp add: B_def)
  from round_binary64_step [OF this k d_def]
  obtain a where a: "round_binary64 (s / n) = Fin a" and ae: "\<bar>a - s / n\<bar> \<le> d"
    by blast
  have "s / n - m = (s - sum_list vs) / n"
    by (simp add: m_def arithmetic_mean_def n_def diff_divide_distrib)
  then have "\<bar>s / n - m\<bar> = \<bar>s - sum_list vs\<bar> / n"
    using n0 by (simp add: abs_divide)
  also have "\<dots> \<le> (n * d) / n"
    using se n0 by (intro divide_right_mono) auto
  also have "\<dots> = d"
    using n0 by simp
  finally have qe: "\<bar>s / n - m\<bar> \<le> d" .
  have am: "\<bar>a - m\<bar> \<le> 2 * d"
    using ae qe by linarith
  have mB: "\<bar>m\<bar> \<le> B"
  proof -
    have "\<bar>m\<bar> = \<bar>sum_list vs\<bar> / n"
      using n0 by (simp add: m_def arithmetic_mean_def n_def abs_divide)
    also have "\<dots> \<le> \<bar>sum_list vs\<bar> / 1"
      using n1 by (intro divide_left_mono) auto
    finally show ?thesis using \<open>\<bar>sum_list vs\<bar> \<le> B\<close> by simp
  qed
  have dle: "d \<le> B"
    using nd n1 d0 mult_right_mono [of 1 n d] by simp
  have aB: "\<bar>a\<bar> \<le> 3 * B"
    using am mB dle by linarith
  have "\<bar>a * 100\<bar> = \<bar>a\<bar> * 100"
    by (simp add: abs_mult)
  with aB have "\<bar>a * 100\<bar> \<le> 300 * B" by linarith
  also have "\<dots> \<le> 512 * B" using B1 by linarith
  finally have pb0: "\<bar>a * 100\<bar> \<le> 2 ^ (k + 9)"
    by (simp add: B_def power_add)
  have "k + 9 \<le> 1023" using k by simp
  with pb0 obtain p where p: "round_binary64 (a * 100) = Fin p"
    and pe: "\<bar>p - a * 100\<bar> \<le> 2 ^ (k + 9) / 2 ^ 53"
    using round_binary64_bound [of "a * 100" "k + 9"] by blast
  have "(2 ^ (k + 9) / 2 ^ 53 :: rat) = 256 * d"
    by (simp add: d_def power_add)
  with pe have pe': "\<bar>p - a * 100\<bar> \<le> 256 * d" by simp
  have e100: "a * 100 - m * 100 = (a - m) * 100"
    by (simp add: left_diff_distrib)
  have "\<bar>a * 100 - m * 100\<bar> = \<bar>a - m\<bar> * 100"
    unfolding e100 abs_mult by simp
  with am have "\<bar>a * 100 - m * 100\<bar> \<le> 200 * d"
    by linarith
  with pe' have pm: "\<bar>p - m * 100\<bar> \<le> 456 * d"
    by linarith
  define K where "K = \<lfloor>p + 1 / 2\<rfloor>"
  have Kp: "\<bar>of_int K - p\<bar> \<le> 1 / 2"
  proof -
    have "of_int K \<le> p + 1 / 2" "p + 1 / 2 < of_int K + 1"
      unfolding K_def by linarith+
    then show ?thesis by linarith
  qed
  have Km100: "\<bar>of_int K - m * 100\<bar> \<le> 1 / 2 + 456 * d"
    using Kp pm by linarith
  have eK: "of_int K / 100 - m = (of_int K - m * 100) / 100"
    by (simp add: diff_divide_distrib)
  have "\<bar>of_int K / 100 - m\<bar> = \<bar>of_int K - m * 100\<bar> / 100"
    unfolding eK abs_divide by simp
  with Km100 have "\<bar>of_int K / 100 - m\<bar> \<le> (1 / 2 + 456 * d) / 100"
    by simp
  then have Km: "\<bar>of_int K / 100 - m\<bar> \<le> 1 / 200 + 8 * d"
    using d0 by simp
  have "\<bar>of_int K / 100\<bar> \<le> \<bar>m\<bar> + (1 / 200 + 8 * d)"
    using Km by linarith
  with mB dle B1 have "\<bar>of_int K / 100\<bar> \<le> 16 * B"
    by linarith
  then have "\<bar>of_int K / 100\<bar> \<le> (2 ^ (k + 4) :: rat)"
    by (simp add: B_def power_add)
  moreover have "k + 4 \<le> 1023" using k by simp
  ultimately obtain r where r: "round_binary64 (of_int K / 100) = Fin r"
    and re: "\<bar>r - of_int K / 100\<bar> \<le> 2 ^ (k + 4) / 2 ^ 53"
    using round_binary64_bound [of "of_int K / 100" "k + 4"] by blast
  have "(2 ^ (k + 4) / 2 ^ 53 :: rat) = 8 * d"
    by (simp add: d_def power_add)
  with re have re': "\<bar>r - of_int K / 100\<bar> \<le> 8 * d" by simp
  have d8: "8 * d = 2 ^ k / 2 ^ 49"
    by (simp add: d_def)
  have n_ne: "n \<noteq> 0" using n0 by simp
  have res: "js_div round_binary64
             (math_round (js_mul round_binary64
                (js_div round_binary64
                   (foldl (js_add round_binary64) (Fin 0) (map Fin vs))
                   (Fin (of_nat (length vs))))
                (Fin 100)))
             (Fin 100) = Fin r"
    using n_ne by (simp add: s a p K_def [symmetric] r n_def [symmetric])
  note Km' = Km [unfolded d8 m_def] and re'' = re' [unfolded d8]
  show ?thesis
    by (rule exI [of _ K], rule exI [of _ r]) (intro conjI res r Km' re'')
qed

lemma rb_2: "round_binary64 2 = Fin 2"
proof (rule round_binary64_pos [where e = 1 and m = 4503599627370496])
  show "round_half_even (2 / 2 powi (1 - 52)) = 4503599627370496"
    by (rule round_half_even_eqI) simp
qed simp_all

lemma rounding_candidates:
  "map cgpa (candidateStudents None rounding_scenario) = [''2.00'', ''2.27'']"
  by (simp add: rounding_scenario_def scenario_defs)

lemma rb_sum: "round_binary64 (9615185204436009 / 2251799813685248) =
    Fin (1201898150554501 / 281474976710656)"
proof (rule round_binary64_pos [where e = 2 and m = 4807592602218004])
  show "round_half_even (9615185204436009 / 2251799813685248 / 2 powi (2 - 52)) =
      4807592602218004"
    by (rule round_half_even_tie) simp_all
qed simp_all

lemma rb_half: "round_binary64 (1201898150554501 / 562949953421312) =
    Fin (1201898150554501 / 562949953421312)"
proof (rule round_binary64_pos [where e = 1 and m = 4807592602218004])
  show "round_half_even (1201898150554501 / 562949953421312 / 2 powi (1 - 52)) =
      4807592602218004"
    by (rule round_half_even_eqI) simp
qed simp_all

lemma rb_times: "round_binary64 (30047453763862525 / 140737488355328) =
    Fin (7511863440965631 / 35184372088832)"
proof (rule round_binary64_pos [where e = 7 and m = 7511863440965631])
  show "round_half_even (30047453763862525 / 140737488355328 / 2 powi (7 - 52)) =
      7511863440965631"
    by (rule round_half_even_eqI) simp
qed simp_all

lemma rb_213: "round_binary64 (213 / 100) = Fin (2398166801574789 / 1125899906842624)"
proof (rule round_binary64_pos [where e = 1 and m = 4796333603149578])
  show "round_half_even (213 / 100 / 2 powi (1 - 52)) = 4796333603149578"
    by (rule round_half_even_eqI) simp
qed simp_all

lemma rb_214: "round_binary64 (107 / 50) = Fin (4818851601286431 / 2251799813685248)"
proof (rule round_binary64_pos [where e = 1 and m = 4818851601286431])
  show "round_half_even (107 / 50 / 2 powi (1 - 52)) = 4818851601286431"
    by (rule round_half_even_eqI) simp
qed simp_all

lemma floor_213: "\<lfloor>7529455627010047 / (35184372088832::rat)\<rfloor> = 213"
  by (simp add: floor_eq_iff)

lemma rounding_candidates_values:
  "map (\<lambda>s. rounding_parseFloat (cgpa s)) (candidateStudents None rounding_scenario) =
     [Fin 2, Fin (5111585577065513 / 2251799813685248)]"
  by (simp add: rounding_scenario_def scenario_defs rounding_parseFloat_def rb_2 rb_227)

text \<open>
  C5, as the specification states it, fails in its second half: the average is computed
  and rounded in binary64 arithmetic, and the result is not always the mean rounded to two
  decimal places. For two students with \<open>cgpa\<close> \<open>2.00\<close> and \<open>2.27\<close>, the mean is
  \<open>2.135\<close> (that of the parsed values lies just above it) and rounds to \<open>2.14\<close>;
  \<open>getDashboardMetrics\<close> returns the binary64 value of \<open>2.13\<close>: the sum \<open>4.27\<close> is a
  tie between two binary64 values and rounds down, its half times a hundred is
  \<open>213.49999999999997\<close>, and \<open>Math.round\<close> gives \<open>213\<close>.
\<close>

theorem averageCGPA_not_rounded_mean_counterexample:
  "map (\<lambda>s. rounding_parseFloat (cgpa s)) (candidateStudents None rounding_scenario) =
     [Fin 2, Fin (5111585577065513 / 2251799813685248)]
   \<and> round_2dp (arithmetic_mean [2, 5111585577065513 / 2251799813685248]) = 214 / 100
   \<and> round_2dp (arithmetic_mean [2, 227 / 100]) = 214 / 100
   \<and> round_binary64 (214 / 100) = Fin (4818851601286431 / 2251799813685248)
   \<and> round_binary64 (213 / 100) = Fin (2398166801574789 / 1125899906842624)
   \<and> averageCGPA (getDashboardMetrics rounding_parseFloat round_binary64 None rounding_scenario) =
       Fin (2398166801574789 / 1125899906842624)"
proof -
  have m1: "round_2dp (arithmetic_mean [2, 5111585577065513 / 2251799813685248]) = 214 / 100"
    by (simp add: round_2dp_def arithmetic_mean_def floor_eq_iff)
  have m2: "round_2dp (arithmetic_mean [2, 227 / 100]) = 214 / 100"
    by (simp add: round_2dp_def arithmetic_mean_def floor_eq_iff)
  have r214: "round_binary64 (214 / 100) = Fin (4818851601286431 / 2251799813685248)"
    using rb_214 by simp
  have avg: "averageCGPA (getDashboardMetrics rounding_parseFloat round_binary64 None
      rounding_scenario) = Fin (2398166801574789 / 1125899906842624)"
    by (simp add: getDashboardMetrics_def Let_def rounding_scenario_def scenario_defs
        rounding_parseFloat_def rb_2 rb_227 rb_sum rb_half rb_times rb_213 floor_213)
  show ?thesis
    using rounding_candidates_values m1 m2 r214 rb_213 avg by blast
qed

text \<open>
  C5, amended. When there is no candidate, \<open>getDashboardMetrics\<close> returns
  \<open>totalStudents = 0\<close>, \<open>deansListCount = 0\<close>, \<open>probationCount = 0\<close> and
  \<open>averageCGPA = 0\<close>: the sum is divided by the number of candidates only when that
  number is positive, and otherwise the average is the literal \<open>0\<close>, which the final
  rounding leaves as it is (under binary64 rounding, and under any rounding that keeps
  zero). So it is in the empty storage (Scenario C). When there are candidates, at most
  \<open>2 ^ 52\<close> of them, whose \<open>cgpa\<close> texts parse to finite values with absolute values
  summing to at most \<open>2 ^ k\<close> (\<open>k \<le> 1000\<close>), \<open>averageCGPA\<close> is finite: it is the binary64
  value nearest to \<open>K / 100\<close> for an integer \<open>K\<close>, and \<open>K / 100\<close> differs from the
  arithmetic mean of the parsed values by at most \<open>0.005 + 2 ^ k / 2 ^ 49\<close>. So it is the
  mean rounded to two decimal places up to the rounding errors of binary64 arithmetic,
  which can move it to the neighbouring hundredth.
\<close>

theorem averageCGPA_zero_when_empty_else_near_mean:
  "(rnd 0 = Fin 0 \<and> candidateStudents semester st = [] \<longrightarrow>
      getDashboardMetrics parseFloat rnd semester st =
        \<lparr>totalStudents = 0, deansListCount = 0, probationCount = 0, averageCGPA = Fin 0\<rparr>)
   \<and> (candidateStudents semester st = [] \<longrightarrow>
        getDashboardMetrics parseFloat round_binary64 semester st =
          \<lparr>totalStudents = 0, deansListCount = 0, probationCount = 0, averageCGPA = Fin 0\<rparr>)
   \<and> getDashboardMetrics parseFloat round_binary64 None emptyStorage =
        \<lparr>totalStudents = 0, deansListCount = 0, probationCount = 0, averageCGPA = Fin 0\<rparr>
   \<and> totalStudents (getDashboardMetrics parseFloat rnd semester st) =
        length (candidateStudents semester st)
   \<and> (candidateStudents semester st \<noteq> [] \<and>
        map (\<lambda>s. parseFloat (cgpa s)) (candidateStudents semester st) = map Fin vs \<and>
        (\<Sum>v\<leftarrow>vs. \<bar>v\<bar>) \<le> 2 ^ k \<and> k \<le> 1000 \<and> length vs \<le> 2 ^ 52 \<longrightarrow>
        (\<exists>K r.
           averageCGPA (getDashboardMetrics parseFloat round_binary64 semester st) = Fin r
           \<and> round_binary64 (of_int K / 100) = Fin r
           \<and> \<bar>of_int K / 100 - arithmetic_mean vs\<bar> \<le> 1 / 200 + 2 ^ k / 2 ^ 49
           \<and> \<bar>r - of_int K / 100\<bar> \<le> 2 ^ k / 2 ^ 49))"
proof -
  let ?c = "candidateStudents semester st"
  let ?zero = "\<lparr>totalStudents = 0, deansListCount = 0, probationCount = 0, averageCGPA = Fin 0\<rparr>"
  have empty: "getDashboardMetrics parseFloat rnd semester st = ?zero"
    if "rnd 0 = Fin 0" and "?c = []" for rnd
    using that
    by (simp add: getDashboardMetrics_def Let_def math_round_zero del: math_round.simps)
  have none: "candidateStudents None emptyStorage = []"
    by (simp add: candidateStudents_def getAllStudents_def map_values_def emptyStorage_def)
  have scenarioC: "getDashboardMetrics parseFloat round_binary64 None emptyStorage = ?zero"
    by (simp add: getDashboardMetrics_def Let_def none round_binary64_zero math_round_zero
        del: math_round.simps)
  have total: "totalStudents (getDashboardMetrics parseFloat rnd semester st) = length ?c"
    by (simp add: getDashboardMetrics_def Let_def)
  have near: "\<exists>K r.
           averageCGPA (getDashboardMetrics parseFloat round_binary64 semester st) = Fin r
           \<and> round_binary64 (of_int K / 100) = Fin r
           \<and> \<bar>of_int K / 100 - arithmetic_mean vs\<bar> \<le> 1 / 200 + 2 ^ k / 2 ^ 49
           \<and> \<bar>r - of_int K / 100\<bar> \<le> 2 ^ k / 2 ^ 49"
    if c: "?c \<noteq> []" and m: "map (\<lambda>s. parseFloat (cgpa s)) ?c = map Fin vs"
      and s: "(\<Sum>v\<leftarrow>vs. \<bar>v\<bar>) \<le> 2 ^ k" and k: "k \<le> 1000" and l: "length vs \<le> 2 ^ 52"
  proof -
    have len: "length ?c = length vs"
      using m by (metis length_map)
    with c have vs: "vs \<noteq> []" by auto
    have f: "foldl (\<lambda>sum s. js_add round_binary64 sum (parseFloat (cgpa s))) (Fin 0) ?c =
        foldl (js_add round_binary64) (Fin 0) (map Fin vs)"
      unfolding m [symmetric] by (simp add: foldl_map)
    have avg: "averageCGPA (getDashboardMetrics parseFloat round_binary64 semester st) =
        js_div round_binary64
             (math_round (js_mul round_binary64
                (js_div round_binary64
                   (foldl (js_add round_binary64) (Fin 0) (map Fin vs))
                   (Fin (of_nat (length vs))))
                (Fin 100)))
             (Fin 100)"
      using c by (simp add: getDashboardMetrics_def Let_def f len
          del: math_round.simps js_div.simps js_mul.simps)
    from average_binary64_error [OF vs s l k] show ?thesis
      unfolding avg .
  qed
  show ?thesis
    using empty [of rnd] empty [of round_binary64] round_binary64_zero scenarioC total near
    by blast
qed

theorem averageCGPA_zero_when_empty_else_near_mean_witness:
  "round_binary64 0 = Fin 0
   \<and> candidateStudents (Some ''Jan-26'') rounding_scenario = []
   \<and> getDashboardMetrics rounding_parseFloat round_binary64 (Some ''Jan-26'') rounding_scenario =
       \<lparr>totalStudents = 0, deansListCount = 0, probationCount = 0, averageCGPA = Fin 0\<rparr>
   \<and> candidateStudents None rounding_scenario \<noteq> []
   \<and> map (\<lambda>s. rounding_parseFloat (cgpa s)) (candidateStudents None rounding_scenario) =
       map Fin [2, 5111585577065513 / 2251799813685248]
   \<and> (\<Sum>v\<leftarrow>[2, 5111585577065513 / 2251799813685248 :: rat]. \<bar>v\<bar>) \<le> 2 ^ 3
   \<and> (3::nat) \<le> 1000
   \<and> length [2, 5111585577065513 / 2251799813685248 :: rat] \<le> 2 ^ 52
   \<and> (\<exists>K r.
         averageCGPA (getDashboardMetrics rounding_parseFloat round_binary64 None rounding_scenario) =
           Fin r
         \<and> round_binary64 (of_int K / 100) = Fin r
         \<and> \<bar>of_int K / 100 - arithmetic_mean [2, 5111585577065513 / 2251799813685248]\<bar> \<le>
             1 / 200 + 2 ^ 3 / 2 ^ 49
         \<and> \<bar>r - of_int K / 100\<bar> \<le> 2 ^ 3 / 2 ^ 49)"
proof -
  let ?vs = "[2, 5111585577065513 / 2251799813685248 :: rat]"
  have e: "candidateStudents (Some ''Jan-26'') rounding_scenario = []"
    by (simp add: rounding_scenario_def scenario_defs)
  have n: "candidateStudents None rounding_scenario \<noteq> []"
    using rounding_candidates by auto
  have m: "map (\<lambda>s. rounding_parseFloat (cgpa s)) (candidateStudents None rounding_scenario) =
      map Fin ?vs"
    using rounding_candidates_values by simp
  have s: "(\<Sum>v\<leftarrow>?vs. \<bar>v\<bar>) \<le> 2 ^ 3"
    by simp
  have k: "(3::nat) \<le> 1000"
    by simp
  have l: "length ?vs \<le> 2 ^ 52"
    by simp
  have one: "getDashboardMetrics rounding_parseFloat round_binary64 (Some ''Jan-26'')
      rounding_scenario =
      \<lparr>totalStudents = 0, deansListCount = 0, probationCount = 0, averageCGPA = Fin 0\<rparr>"
    using averageCGPA_zero_when_empty_else_near_mean
      [of round_binary64 "Some ''Jan-26''" rounding_scenario rounding_parseFloat "[]" 0] e
    by blast
  have two: "\<exists>K r.
         averageCGPA (getDashboardMetrics rounding_parseFloat round_binary64 None rounding_scenario) =
           Fin r
         \<and> round_binary64 (of_int K / 100) = Fin r
         \<and> \<bar>of_int K / 100 - arithmetic_mean ?vs\<bar> \<le> 1 / 200 + 2 ^ 3 / 2 ^ 49
         \<and> \<bar>r - of_int K / 100\<bar> \<le> 2 ^ 3 / 2 ^ 49"
    using averageCGPA_zero_when_empty_else_near_mean
      [of round_binary64 None rounding_scenario rounding_parseFloat ?vs 3] n m s k l
    by blast
  show ?thesis
    using round_binary64_zero e one n m s k l two by blast
qed

end
